theory Spec2Isabelle
  imports Main
begin

section \<open>Data model of pkg/dsl/definition/template.go\<close>

text \<open>
  The Go file renders CUE definition templates into a process context (\<open>Complete\<close>) and
  evaluates health and status templates against the live cluster objects
  (\<open>HealthCheck\<close>, \<open>Status\<close>). Everything the file imports (the CUE engine,
  \<open>encoding/json\<close>, the Kubernetes client, the packages \<open>model\<close>, \<open>process\<close>,
  \<open>task\<close>, \<open>oam\<close> and \<open>util\<close>) is outside \<open>template.go\<close>; those parts are either
  parameters of the model or small definitions marked as modelled from the spec.
\<close>

text \<open>A Go \<open>interface{}\<close> holding JSON-like data (\<open>map[string]interface{}\<close>, strings, ...).\<close>

datatype json = JNull | JBool bool | JNumber int | JString string
  | JArray "json list" | JObject "(string \<times> json) list"

text \<open>\<open>schema.GroupVersionKind\<close>.\<close>

record GroupVersionKind =
  Group :: string
  Version :: string
  Kind :: string

text \<open>A Go \<open>map[string]string\<close> of labels.\<close>

type_synonym labels = "string \<rightharpoonup> string"

text \<open>Indexing a Go map: a missing key reads as the zero value, the empty string.\<close>

definition index :: "labels \<Rightarrow> string \<Rightarrow> string" where
  "index m k = (case m k of None \<Rightarrow> [] | Some v \<Rightarrow> v)"

text \<open>
  \<open>unstructured.Unstructured\<close>: the field \<open>Object\<close> and the three accessors the file
  calls on it.
\<close>

record unstructured =
  Object :: json
  GroupVersionKind :: GroupVersionKind
  GetName :: string
  GetLabels :: labels

text \<open>
  Modelled from the spec: the value type of the constraint engine (package \<open>cue\<close>, not
  among the sources). A looked-up value is a tagged union; a struct has ordered fields
  with the flags \<open>IsDefinition\<close>, \<open>IsHidden\<close>, \<open>IsOptional\<close>; \<open>Bottom\<close> is the value
  of a missing field, \<open>VOther\<close> any value of another kind.
\<close>

datatype cue_value = Bottom | VBool bool | VString string | VStruct "FieldInfo list"
  | VOther string
and FieldInfo = FieldInfo (Name: string) (Value: cue_value) (IsDefinition: bool)
  (IsHidden: bool) (IsOptional: bool)

text \<open>
  Errors as values. \<open>New\<close> is \<open>errors.New\<close>, \<open>WithMessage\<close> is \<open>errors.WithMessage\<close>
  and \<open>errors.WithMessagef\<close> (the message already formatted), \<open>NoResourcesFound\<close> is the
  \<open>errors.Errorf\<close> of \<open>getResourceFromObj\<close> with its two arguments, \<open>External\<close> is an
  error produced by a collaborator, \<open>EvaluationError\<close> the engine's error for a value
  that is missing or of the wrong kind, and \<open>NilDereference\<close> the panic of a method
  call on a nil Base.
\<close>

datatype error = External string | New string | WithMessage error string
  | NoResourcesFound GroupVersionKind labels | EvaluationError cue_value | NilDereference

text \<open>
  Modelled from the spec: the accessors of a looked-up value. A missing field or a kind
  mismatch is an evaluation error.
\<close>

fun Exists :: "cue_value \<Rightarrow> bool" where
  "Exists Bottom = False"
| "Exists v = True"

fun Bool :: "cue_value \<Rightarrow> error + bool" where
  "Bool (VBool b) = Inr b"
| "Bool v = Inl (EvaluationError v)"

fun String :: "cue_value \<Rightarrow> error + string" where
  "String (VString s) = Inr s"
| "String v = Inl (EvaluationError v)"

fun Struct :: "cue_value \<Rightarrow> error + FieldInfo list" where
  "Struct (VStruct fs) = Inr fs"
| "Struct v = Inl (EvaluationError v)"

text \<open>\<open>cue.Instance\<close>: the error of its value and the lookup of a top-level field.\<close>

record cue_instance =
  Err :: "error option"
  Lookup :: "string \<Rightarrow> cue_value"

text \<open>
  Modelled from the spec: \<open>model.Instance\<close>, the wrapper that turns an evaluated value
  into a queryable object (package \<open>model\<close>, not among the sources).
\<close>

datatype Instance = Instance cue_value

text \<open>\<open>process.Auxiliary\<close>.\<close>

record Auxiliary =
  Ins :: Instance
  Type :: string
  Name :: string
  IsOutputs :: bool

text \<open>
  Modelled from the spec: the execution context (package \<open>process\<close>, not among the
  sources) owns the Base, which may not exist yet, and an ordered collection of
  auxiliaries, and exposes the base-context file and the base-context labels. The
  labels are a Go map; \<open>BaseContextLabels\<close> lists its entries in the order a
  \<open>range\<close> visits them, so the keys are pairwise distinct.
\<close>

record Context =
  base :: "Instance option"
  auxiliaries :: "Auxiliary list"
  BaseContextFile :: string
  BaseContextLabels :: "(string \<times> string) list"

definition SetBase :: "Instance \<Rightarrow> Context \<Rightarrow> Context" where
  "SetBase b ctx = ctx\<lparr>base := Some b\<rparr>"

definition PutAuxiliaries :: "Auxiliary \<Rightarrow> Context \<Rightarrow> Context" where
  "PutAuxiliaries a ctx = ctx\<lparr>auxiliaries := auxiliaries ctx @ [a]\<rparr>"

definition Output :: "Context \<Rightarrow> Instance option \<times> Auxiliary list" where
  "Output ctx = (base ctx, auxiliaries ctx)"

text \<open>
  The constants of package \<open>oam\<close> the file uses (label keys and one label value); their
  values are not among the sources, so they are parameters.
\<close>

record oam =
  LabelAppName :: string
  LabelAppComponent :: string
  LabelOAMResourceType :: string
  ResourceTypeWorkload :: string
  TraitTypeLabel :: string
  TraitResource :: string

text \<open>
  The cluster reader, as the two helpers of package \<open>util\<close> see it:
  \<open>util.GetObjectGivenGVKAndName\<close> (kind, namespace, name) and
  \<open>util.GetObjectsGivenGVKAndLabels\<close> (kind, namespace, labels; the result is
  \<open>list.Items\<close>). Both are parameters.
\<close>

record client =
  GetObjectGivenGVKAndName :: "GroupVersionKind \<Rightarrow> string \<Rightarrow> string \<Rightarrow> error + unstructured"
  GetObjectsGivenGVKAndLabels :: "GroupVersionKind \<Rightarrow> string \<Rightarrow> labels \<Rightarrow> error + unstructured list"

text \<open>
  What a call does beyond returning: the cluster reads, with their arguments, and the
  compilations of the expression evaluator (file name and source text), in order.
\<close>

datatype event = ClusterGet GroupVersionKind string string
  | ClusterList GroupVersionKind string labels
  | CueCompile string string

text \<open>
  The other collaborators, as parameters: \<open>bi.AddFile\<close> (file name, source; its error),
  \<open>cue.Build\<close> on the files added, \<open>Runtime.Compile\<close>, \<open>task.Process\<close>,
  \<open>json.Marshal\<close> on the renderer's parameters and on a template context,
  \<open>model.NewBase\<close>, \<open>model.NewOther\<close>, and the methods \<open>Unstructured\<close> and
  \<open>Unify\<close> of \<open>model.Instance\<close> (\<open>Unify\<close> changes its receiver in place: it gives
  the receiver afterwards and the error).
\<close>

record engine =
  AddFile :: "string \<Rightarrow> string \<Rightarrow> error option"
  Build :: "(string \<times> string) list \<Rightarrow> cue_instance list"
  Compile :: "string \<Rightarrow> string \<Rightarrow> error + cue_instance"
  Process :: "cue_instance \<Rightarrow> error + cue_instance"
  Marshal :: "json \<Rightarrow> error + string"
  MarshalContext :: "(string \<rightharpoonup> json) \<Rightarrow> error + string"
  NewBase :: "cue_value \<Rightarrow> error + Instance"
  NewOther :: "cue_value \<Rightarrow> error + Instance"
  Unstructured :: "Instance \<Rightarrow> error + unstructured"
  Unify :: "Instance \<Rightarrow> Instance \<Rightarrow> Instance \<times> error option"

text \<open>The constants of the file.\<close>

definition OutputFieldName :: string where "OutputFieldName = ''output''"
definition OutputsFieldName :: string where "OutputsFieldName = ''outputs''"
definition PatchFieldName :: string where "PatchFieldName = ''patch''"
definition CustomMessage :: string where "CustomMessage = ''message''"
definition HealthCheckPolicy :: string where "HealthCheckPolicy = ''isHealth''"
definition AuxiliaryWorkload :: string where "AuxiliaryWorkload = ''AuxiliaryWorkload''"

text \<open>\<open>type def struct { name string; params interface{} }\<close>; \<open>params\<close> may be nil.\<close>

record def =
  name :: string
  params :: "json option"

section \<open>The live-resource resolver\<close>

text \<open>
  The loop \<open>for _, v := range list.Items\<close> of \<open>getResourceFromObj\<close>: the first item
  whose label \<open>oam.TraitResource\<close> equals \<open>outputsResource\<close>.
\<close>

fun scanItems :: "string \<Rightarrow> string \<Rightarrow> unstructured list \<Rightarrow> unstructured option" where
  "scanItems key outputsResource [] = None"
| "scanItems key outputsResource (v # vs) =
     (if index (GetLabels v) key = outputsResource then Some v
      else scanItems key outputsResource vs)"

text \<open>
  \<open>getResourceFromObj\<close>. The Go function writes into the caller's \<open>labels\<close> map; the
  model returns the map as it is after the call, the reads performed, and the result.
\<close>

definition getResourceFromObj ::
  "oam \<Rightarrow> unstructured \<Rightarrow> client \<Rightarrow> string \<Rightarrow> labels \<Rightarrow> string
     \<Rightarrow> labels \<times> event list \<times> (error + json)" where
  "getResourceFromObj c obj cli namespace labels0 outputsResource =
     (let labels = (if outputsResource \<noteq> [] then labels0(TraitResource c \<mapsto> outputsResource)
                    else labels0)
      in if GetName obj \<noteq> [] then
           (case GetObjectGivenGVKAndName cli (GroupVersionKind obj) namespace (GetName obj) of
              Inl err \<Rightarrow>
                (labels, [ClusterGet (GroupVersionKind obj) namespace (GetName obj)], Inl err)
            | Inr u \<Rightarrow>
                (labels, [ClusterGet (GroupVersionKind obj) namespace (GetName obj)],
                 Inr (Object u)))
         else
           (case GetObjectsGivenGVKAndLabels cli (GroupVersionKind obj) namespace labels of
              Inl err \<Rightarrow> (labels, [ClusterList (GroupVersionKind obj) namespace labels], Inl err)
            | Inr items \<Rightarrow>
                if length items = 1 then
                  (labels, [ClusterList (GroupVersionKind obj) namespace labels],
                   Inr (Object (items ! 0)))
                else
                  (case scanItems (TraitResource c) outputsResource items of
                     Some v \<Rightarrow>
                       (labels, [ClusterList (GroupVersionKind obj) namespace labels],
                        Inr (Object v))
                   | None \<Rightarrow>
                       (labels, [ClusterList (GroupVersionKind obj) namespace labels],
                        Inl (NoResourcesFound (GroupVersionKind obj) labels)))))"

section \<open>The template context of HealthCheck and Status\<close>

text \<open>
  Modelled from the spec: \<open>util.MergeMapOverrideWithDst src dst\<close> (package \<open>util\<close>, not
  among the sources) is the union of the two label sets in a new map, \<open>dst\<close> kept on a
  conflict.
\<close>

definition MergeMapOverrideWithDst :: "labels \<Rightarrow> labels \<Rightarrow> labels" where
  "MergeMapOverrideWithDst src dst = src ++ dst"

text \<open>
  The loop \<open>for k, v := range ctx.BaseContextLabels()\<close>, the same in both
  \<open>getTemplateContext\<close> methods: every entry goes into \<open>root\<close>, and the keys
  \<open>appName\<close> and \<open>name\<close> also into \<open>commonLabels\<close>.
\<close>

fun rangeBaseContextLabels ::
  "oam \<Rightarrow> (string \<times> string) list \<Rightarrow> (string \<rightharpoonup> json) \<times> labels
     \<Rightarrow> (string \<rightharpoonup> json) \<times> labels" where
  "rangeBaseContextLabels c [] (root, commonLabels) = (root, commonLabels)"
| "rangeBaseContextLabels c ((k, v) # kvs) (root, commonLabels) =
     rangeBaseContextLabels c kvs
       (root(k \<mapsto> JString v),
        if k = ''appName'' then commonLabels(LabelAppName c \<mapsto> v)
        else if k = ''name'' then commonLabels(LabelAppComponent c \<mapsto> v)
        else commonLabels)"

text \<open>The message of the \<open>errors.New\<close> in \<open>workloadDef.getTemplateContext\<close>.\<close>

definition auxiliaryNameMessage :: string where
  "auxiliaryNameMessage =
     ''the auxiliary of workload must have a name with format '' @ [CHR 0x27] @
     ''outputs.<my-name>'' @ [CHR 0x27]"

text \<open>The loop \<open>for _, assist := range assists\<close> of \<open>workloadDef.getTemplateContext\<close>.\<close>

fun wd_rangeAssists ::
  "oam \<Rightarrow> engine \<Rightarrow> client \<Rightarrow> string \<Rightarrow> labels \<Rightarrow> Auxiliary list \<Rightarrow> (string \<rightharpoonup> json)
     \<Rightarrow> event list \<times> (error + (string \<rightharpoonup> json))" where
  "wd_rangeAssists c e cli ns commonLabels [] root = ([], Inr root)"
| "wd_rangeAssists c e cli ns commonLabels (assist # assists) root =
     (if Type assist \<noteq> AuxiliaryWorkload then
        wd_rangeAssists c e cli ns commonLabels assists root
      else if Auxiliary.Name assist = [] then ([], Inl (New auxiliaryNameMessage))
      else
        (case Unstructured e (Ins assist) of
           Inl err \<Rightarrow> ([], Inl err)
         | Inr traitRef \<Rightarrow>
             (case getResourceFromObj c traitRef cli ns
                     (MergeMapOverrideWithDst [TraitTypeLabel c \<mapsto> AuxiliaryWorkload] commonLabels)
                     (Auxiliary.Name assist) of
                (_, evs, Inl err) \<Rightarrow> (evs, Inl err)
              | (_, evs, Inr object) \<Rightarrow>
                  (case wd_rangeAssists c e cli ns commonLabels assists
                          (root(OutputsFieldName \<mapsto> JObject [(Auxiliary.Name assist, object)])) of
                     (evs', r) \<Rightarrow> (evs @ evs', r)))))"

text \<open>\<open>workloadDef.getTemplateContext\<close>: the reads performed and the root context.\<close>

definition wd_getTemplateContext ::
  "oam \<Rightarrow> engine \<Rightarrow> def \<Rightarrow> Context \<Rightarrow> client \<Rightarrow> string
     \<Rightarrow> event list \<times> (error + (string \<rightharpoonup> json))" where
  "wd_getTemplateContext c e wd ctx cli ns =
     (case rangeBaseContextLabels c (BaseContextLabels ctx) (Map.empty, Map.empty) of
        (root, commonLabels) \<Rightarrow>
     (case Output ctx of
        (None, assists) \<Rightarrow> ([], Inl NilDereference)
      | (Some b, assists) \<Rightarrow>
     (case Unstructured e b of
        Inl err \<Rightarrow> ([], Inl err)
      | Inr componentWorkload \<Rightarrow>
     (case getResourceFromObj c componentWorkload cli ns
             (MergeMapOverrideWithDst [LabelOAMResourceType c \<mapsto> ResourceTypeWorkload c]
                commonLabels) [] of
        (_, evs, Inl err) \<Rightarrow> (evs, Inl err)
      | (_, evs, Inr object) \<Rightarrow>
     (case wd_rangeAssists c e cli ns commonLabels assists (root(OutputFieldName \<mapsto> object)) of
        (evs', r) \<Rightarrow> (evs @ evs', r))))))"

text \<open>The loop \<open>for _, assist := range assists\<close> of \<open>traitDef.getTemplateContext\<close>.\<close>

fun td_rangeAssists ::
  "oam \<Rightarrow> engine \<Rightarrow> def \<Rightarrow> client \<Rightarrow> string \<Rightarrow> labels \<Rightarrow> Auxiliary list \<Rightarrow> (string \<rightharpoonup> json)
     \<Rightarrow> event list \<times> (error + (string \<rightharpoonup> json))" where
  "td_rangeAssists c e td cli ns commonLabels [] root = ([], Inr root)"
| "td_rangeAssists c e td cli ns commonLabels (assist # assists) root =
     (if Type assist \<noteq> name td then
        td_rangeAssists c e td cli ns commonLabels assists root
      else
        (case Unstructured e (Ins assist) of
           Inl err \<Rightarrow> ([], Inl err)
         | Inr traitRef \<Rightarrow>
             (case getResourceFromObj c traitRef cli ns
                     (MergeMapOverrideWithDst [TraitTypeLabel c \<mapsto> Type assist] commonLabels)
                     (Auxiliary.Name assist) of
                (_, evs, Inl err) \<Rightarrow> (evs, Inl err)
              | (_, evs, Inr object) \<Rightarrow>
                  (case td_rangeAssists c e td cli ns commonLabels assists
                          (if IsOutputs assist then
                             root(OutputsFieldName \<mapsto> JObject [(Auxiliary.Name assist, object)])
                           else root(OutputFieldName \<mapsto> object)) of
                     (evs', r) \<Rightarrow> (evs @ evs', r)))))"

text \<open>\<open>traitDef.getTemplateContext\<close>.\<close>

definition td_getTemplateContext ::
  "oam \<Rightarrow> engine \<Rightarrow> def \<Rightarrow> Context \<Rightarrow> client \<Rightarrow> string
     \<Rightarrow> event list \<times> (error + (string \<rightharpoonup> json))" where
  "td_getTemplateContext c e td ctx cli ns =
     (case rangeBaseContextLabels c (BaseContextLabels ctx) (Map.empty, Map.empty) of
        (root, commonLabels) \<Rightarrow>
     (case Output ctx of
        (_, assists) \<Rightarrow> td_rangeAssists c e td cli ns commonLabels assists root))"

section \<open>The expression evaluator, HealthCheck and Status\<close>

text \<open>\<open>checkHealth\<close>. The line feed between context and template is \<open>CHR 0x0A\<close>.\<close>

definition checkHealth ::
  "engine \<Rightarrow> (string \<rightharpoonup> json) \<Rightarrow> string \<Rightarrow> event list \<times> (error + bool)" where
  "checkHealth e templateContext healthPolicyTemplate =
     (case MarshalContext e templateContext of
        Inl err \<Rightarrow> ([], Inl (WithMessage err ''json marshal template context''))
      | Inr bt \<Rightarrow>
          (let buff = ''context: '' @ bt @ [CHR 0x0A] @ healthPolicyTemplate in
           case Compile e ''-'' buff of
             Inl err \<Rightarrow> ([CueCompile ''-'' buff], Inl (WithMessage err ''compile health template''))
           | Inr inst \<Rightarrow>
               (case Bool (Lookup inst HealthCheckPolicy) of
                  Inl err \<Rightarrow>
                    ([CueCompile ''-'' buff], Inl (WithMessage err ''evaluate health status''))
                | Inr healthy \<Rightarrow> ([CueCompile ''-'' buff], Inr healthy))))"

text \<open>\<open>getStatusMessage\<close>.\<close>

definition getStatusMessage ::
  "engine \<Rightarrow> (string \<rightharpoonup> json) \<Rightarrow> string \<Rightarrow> event list \<times> (error + string)" where
  "getStatusMessage e templateContext customStatusTemplate =
     (case MarshalContext e templateContext of
        Inl err \<Rightarrow> ([], Inl (WithMessage err ''json marshal template context''))
      | Inr bt \<Rightarrow>
          (let buff = ''context: '' @ bt @ [CHR 0x0A] @ customStatusTemplate in
           case Compile e ''-'' buff of
             Inl err \<Rightarrow> ([CueCompile ''-'' buff], Inl err)
           | Inr inst \<Rightarrow> ([CueCompile ''-'' buff], String (Lookup inst CustomMessage))))"

text \<open>\<open>workloadDef.HealthCheck\<close> and \<open>workloadDef.Status\<close>.\<close>

definition wd_HealthCheck ::
  "oam \<Rightarrow> engine \<Rightarrow> def \<Rightarrow> Context \<Rightarrow> client \<Rightarrow> string \<Rightarrow> string
     \<Rightarrow> event list \<times> (error + bool)" where
  "wd_HealthCheck c e wd ctx cli ns healthPolicyTemplate =
     (if healthPolicyTemplate = [] then ([], Inr True)
      else
        (case wd_getTemplateContext c e wd ctx cli ns of
           (evs, Inl err) \<Rightarrow> (evs, Inl (WithMessage err ''get template context''))
         | (evs, Inr templateContext) \<Rightarrow>
             (case checkHealth e templateContext healthPolicyTemplate of
                (evs', r) \<Rightarrow> (evs @ evs', r))))"

definition wd_Status ::
  "oam \<Rightarrow> engine \<Rightarrow> def \<Rightarrow> Context \<Rightarrow> client \<Rightarrow> string \<Rightarrow> string
     \<Rightarrow> event list \<times> (error + string)" where
  "wd_Status c e wd ctx cli ns customStatusTemplate =
     (if customStatusTemplate = [] then ([], Inr [])
      else
        (case wd_getTemplateContext c e wd ctx cli ns of
           (evs, Inl err) \<Rightarrow> (evs, Inl (WithMessage err ''get template context''))
         | (evs, Inr templateContext) \<Rightarrow>
             (case getStatusMessage e templateContext customStatusTemplate of
                (evs', r) \<Rightarrow> (evs @ evs', r))))"

text \<open>\<open>traitDef.Status\<close> and \<open>traitDef.HealthCheck\<close>.\<close>

definition td_Status ::
  "oam \<Rightarrow> engine \<Rightarrow> def \<Rightarrow> Context \<Rightarrow> client \<Rightarrow> string \<Rightarrow> string
     \<Rightarrow> event list \<times> (error + string)" where
  "td_Status c e td ctx cli ns customStatusTemplate =
     (if customStatusTemplate = [] then ([], Inr [])
      else
        (case td_getTemplateContext c e td ctx cli ns of
           (evs, Inl err) \<Rightarrow> (evs, Inl (WithMessage err ''get template context''))
         | (evs, Inr templateContext) \<Rightarrow>
             (case getStatusMessage e templateContext customStatusTemplate of
                (evs', r) \<Rightarrow> (evs @ evs', r))))"

definition td_HealthCheck ::
  "oam \<Rightarrow> engine \<Rightarrow> def \<Rightarrow> Context \<Rightarrow> client \<Rightarrow> string \<Rightarrow> string
     \<Rightarrow> event list \<times> (error + bool)" where
  "td_HealthCheck c e td ctx cli ns healthPolicyTemplate =
     (if healthPolicyTemplate = [] then ([], Inr True)
      else
        (case td_getTemplateContext c e td ctx cli ns of
           (evs, Inl err) \<Rightarrow> (evs, Inl (WithMessage err ''get template context''))
         | (evs, Inr templateContext) \<Rightarrow>
             (case checkHealth e templateContext healthPolicyTemplate of
                (evs', r) \<Rightarrow> (evs @ evs', r))))"

section \<open>Rendering: Complete\<close>

text \<open>
  The files both \<open>Complete\<close> methods add to the build instance before \<open>cue.Build\<close>:
  the template, the parameters when they are not nil (a failed \<open>json.Marshal\<close> is
  ignored and leaves no bytes), and the base-context file. \<open>baseName\<close> is the file
  name of the last one, \<open>-\<close> for a workload and \<open>f\<close> for a trait. The result is the
  first error of \<open>AddFile\<close>, or the files.
\<close>

definition addFiles ::
  "engine \<Rightarrow> def \<Rightarrow> Context \<Rightarrow> string \<Rightarrow> string \<Rightarrow> error + (string \<times> string) list" where
  "addFiles e d ctx abstractTemplate baseName =
     (case AddFile e ''-'' abstractTemplate of
        Some err \<Rightarrow> Inl err
      | None \<Rightarrow>
          (case (case params d of
                   None \<Rightarrow> Inr [(''-'', abstractTemplate)]
                 | Some p \<Rightarrow>
                     (let bt = (case Marshal e p of Inl err \<Rightarrow> [] | Inr b \<Rightarrow> b) in
                      case AddFile e ''parameter'' (''parameter: '' @ bt) of
                        Some err \<Rightarrow> Inl err
                      | None \<Rightarrow>
                          Inr [(''-'', abstractTemplate), (''parameter'', ''parameter: '' @ bt)])) of
             Inl err \<Rightarrow> Inl err
           | Inr bi \<Rightarrow>
               (case AddFile e baseName (BaseContextFile ctx) of
                  Some err \<Rightarrow> Inl err
                | None \<Rightarrow> Inr (bi @ [(baseName, BaseContextFile ctx)]))))"

text \<open>
  The loop over the fields of \<open>outputs\<close> in \<open>workloadDef.Complete\<close>; the context is
  changed in place, so it is returned also with an error.
\<close>

fun wd_rangeFields :: "engine \<Rightarrow> def \<Rightarrow> FieldInfo list \<Rightarrow> Context \<Rightarrow> Context \<times> error option" where
  "wd_rangeFields e wd [] ctx = (ctx, None)"
| "wd_rangeFields e wd (fieldInfo # fs) ctx =
     (if IsDefinition fieldInfo \<or> IsHidden fieldInfo \<or> IsOptional fieldInfo then
        wd_rangeFields e wd fs ctx
      else
        (case NewOther e (Value fieldInfo) of
           Inl err \<Rightarrow>
             (ctx, Some (WithMessage err
                (''parse WorkloadDefinition '' @ name wd @ '' outputs('' @
                 FieldInfo.Name fieldInfo @ '')'')))
         | Inr other \<Rightarrow>
             wd_rangeFields e wd fs
               (PutAuxiliaries \<lparr>Ins = other, Type = AuxiliaryWorkload,
                  Name = FieldInfo.Name fieldInfo, IsOutputs = True\<rparr> ctx)))"

text \<open>The loop \<open>for _, inst := range insts\<close> of \<open>workloadDef.Complete\<close>.\<close>

fun wd_rangeInsts :: "engine \<Rightarrow> def \<Rightarrow> cue_instance list \<Rightarrow> Context \<Rightarrow> Context \<times> error option" where
  "wd_rangeInsts e wd [] ctx = (ctx, None)"
| "wd_rangeInsts e wd (inst # insts) ctx =
     (case Err inst of
        Some err \<Rightarrow> (ctx, Some (WithMessage err (''workloadDef '' @ name wd @ '' eval'')))
      | None \<Rightarrow>
          (case NewBase e (Lookup inst OutputFieldName) of
             Inl err \<Rightarrow> (ctx, Some (WithMessage err (''workloadDef '' @ name wd @ '' new base'')))
           | Inr b \<Rightarrow>
               (case Struct (Lookup inst OutputsFieldName) of
                  Inl err \<Rightarrow> wd_rangeInsts e wd insts (SetBase b ctx)
                | Inr st \<Rightarrow>
                    (case wd_rangeFields e wd st (SetBase b ctx) of
                       (ctx', Some err) \<Rightarrow> (ctx', Some err)
                     | (ctx', None) \<Rightarrow> wd_rangeInsts e wd insts ctx'))))"

text \<open>\<open>workloadDef.Complete\<close>: the context afterwards and the error returned.\<close>

definition wd_Complete :: "engine \<Rightarrow> def \<Rightarrow> Context \<Rightarrow> string \<Rightarrow> Context \<times> error option" where
  "wd_Complete e wd ctx abstractTemplate =
     (case addFiles e wd ctx abstractTemplate ''-'' of
        Inl err \<Rightarrow> (ctx, Some err)
      | Inr bi \<Rightarrow> wd_rangeInsts e wd (Build e bi) ctx)"

text \<open>The loop over the fields of \<open>outputs\<close> in \<open>traitDef.Complete\<close>.\<close>

fun td_rangeFields :: "engine \<Rightarrow> def \<Rightarrow> FieldInfo list \<Rightarrow> Context \<Rightarrow> Context \<times> error option" where
  "td_rangeFields e td [] ctx = (ctx, None)"
| "td_rangeFields e td (fieldInfo # fs) ctx =
     (if IsDefinition fieldInfo \<or> IsHidden fieldInfo \<or> IsOptional fieldInfo then
        td_rangeFields e td fs ctx
      else
        (case NewOther e (Value fieldInfo) of
           Inl err \<Rightarrow>
             (ctx, Some (WithMessage err
                (''traitDef '' @ name td @ '' new Assists('' @ FieldInfo.Name fieldInfo @ '')'')))
         | Inr other \<Rightarrow>
             td_rangeFields e td fs
               (PutAuxiliaries \<lparr>Ins = other, Type = name td,
                  Name = FieldInfo.Name fieldInfo, IsOutputs = True\<rparr> ctx)))"

text \<open>
  The three steps of the loop body of \<open>traitDef.Complete\<close> after the pre-processing:
  the field \<open>output\<close>, the field \<open>outputs\<close>, the field \<open>patch\<close>. In the Go struct
  literal of the first step \<open>Name\<close> is left out, so it is the empty string.
\<close>

definition td_output :: "engine \<Rightarrow> def \<Rightarrow> cue_instance \<Rightarrow> Context \<Rightarrow> Context \<times> error option" where
  "td_output e td inst ctx =
     (if Exists (Lookup inst OutputFieldName) then
        (case NewOther e (Lookup inst OutputFieldName) of
           Inl err \<Rightarrow> (ctx, Some (WithMessage err (''traitDef '' @ name td @ '' new Assist'')))
         | Inr other \<Rightarrow>
             (PutAuxiliaries \<lparr>Ins = other, Type = name td, Name = [], IsOutputs = False\<rparr> ctx,
              None))
      else (ctx, None))"

definition td_outputs :: "engine \<Rightarrow> def \<Rightarrow> cue_instance \<Rightarrow> Context \<Rightarrow> Context \<times> error option" where
  "td_outputs e td inst ctx =
     (case Struct (Lookup inst OutputsFieldName) of
        Inl err \<Rightarrow> (ctx, None)
      | Inr st \<Rightarrow> td_rangeFields e td st ctx)"

definition td_patch :: "engine \<Rightarrow> def \<Rightarrow> cue_instance \<Rightarrow> Context \<Rightarrow> Context \<times> error option" where
  "td_patch e td inst ctx =
     (if Exists (Lookup inst PatchFieldName) then
        (case Output ctx of
           (b, assists) \<Rightarrow>
             (case NewOther e (Lookup inst PatchFieldName) of
                Inl err \<Rightarrow>
                  (ctx, Some (WithMessage err (''traitDef '' @ name td @ '' patcher NewOther'')))
              | Inr p \<Rightarrow>
                  (case b of
                     None \<Rightarrow> (ctx, Some NilDereference)
                   | Some b0 \<Rightarrow>
                       (case Unify e b0 p of
                          (b1, err) \<Rightarrow> (ctx\<lparr>base := Some b1\<rparr>, err)))))
      else (ctx, None))"

text \<open>The loop \<open>for _, inst := range insts\<close> of \<open>traitDef.Complete\<close>.\<close>

fun td_rangeInsts :: "engine \<Rightarrow> def \<Rightarrow> cue_instance list \<Rightarrow> Context \<Rightarrow> Context \<times> error option" where
  "td_rangeInsts e td [] ctx = (ctx, None)"
| "td_rangeInsts e td (inst0 # insts) ctx =
     (case Err inst0 of
        Some err \<Rightarrow> (ctx, Some (WithMessage err (''traitDef '' @ name td @ '' build'')))
      | None \<Rightarrow>
          (case (if Exists (Lookup inst0 ''processing'') then Process e inst0 else Inr inst0) of
             Inl err \<Rightarrow> (ctx, Some (WithMessage err (''traitDef '' @ name td @ '' build'')))
           | Inr inst \<Rightarrow>
               (case td_output e td inst ctx of
                  (ctx1, Some err) \<Rightarrow> (ctx1, Some err)
                | (ctx1, None) \<Rightarrow>
                    (case td_outputs e td inst ctx1 of
                       (ctx2, Some err) \<Rightarrow> (ctx2, Some err)
                     | (ctx2, None) \<Rightarrow>
                         (case td_patch e td inst ctx2 of
                            (ctx3, Some err) \<Rightarrow> (ctx3, Some err)
                          | (ctx3, None) \<Rightarrow> td_rangeInsts e td insts ctx3)))))"

text \<open>\<open>traitDef.Complete\<close>.\<close>

definition td_Complete :: "engine \<Rightarrow> def \<Rightarrow> Context \<Rightarrow> string \<Rightarrow> Context \<times> error option" where
  "td_Complete e td ctx abstractTemplate =
     (case addFiles e td ctx abstractTemplate ''f'' of
        Inl err \<Rightarrow> (ctx, Some err)
      | Inr bi \<Rightarrow> td_rangeInsts e td (Build e bi) ctx)"

section \<open>Example inputs\<close>

text \<open>
  Concrete collaborators for evaluating the definitions: the label keys of package
  \<open>oam\<close>, a cluster holding a list of objects (fetch by kind and name, list by kind),
  rendered symbolic objects, and an engine whose build and compilation give a fixed
  instance, whose wrappers fail on values of another kind, in which a wrapped
  string \<open>n\<close> stands for a rendered object named \<open>n\<close>, and whose \<open>Unify\<close> leaves
  the patch in place of the receiver.
\<close>

definition oam0 :: oam where
  "oam0 = \<lparr>LabelAppName = ''app.oam.dev/name'', LabelAppComponent = ''app.oam.dev/component'',
            LabelOAMResourceType = ''app.oam.dev/resourceType'',
            ResourceTypeWorkload = ''WORKLOAD'', TraitTypeLabel = ''trait.oam.dev/type'',
            TraitResource = ''trait.oam.dev/resource''\<rparr>"

definition gvkService :: GroupVersionKind where
  "gvkService = \<lparr>Group = [], Version = ''v1'', Kind = ''Service''\<rparr>"

definition liveObject :: "string \<Rightarrow> labels \<Rightarrow> unstructured" where
  "liveObject n ls = \<lparr>Object = JObject [(''id'', JString n)], GroupVersionKind = gvkService,
      GetName = n, GetLabels = ls\<rparr>"

definition rendered :: "string \<Rightarrow> unstructured" where
  "rendered n = \<lparr>Object = JNull, GroupVersionKind = gvkService, GetName = n,
      GetLabels = Map.empty\<rparr>"

definition cluster :: "unstructured list \<Rightarrow> client" where
  "cluster items =
     \<lparr>GetObjectGivenGVKAndName =
        (\<lambda>k ns n. case find (\<lambda>u. GroupVersionKind u = k \<and> GetName u = n) items of
                     None \<Rightarrow> Inl (External ''not found'')
                   | Some u \<Rightarrow> Inr u),
      GetObjectsGivenGVKAndLabels = (\<lambda>k ns ls. Inr (filter (\<lambda>u. GroupVersionKind u = k) items))\<rparr>"

definition engine0 :: "cue_instance \<Rightarrow> engine" where
  "engine0 inst =
     \<lparr>AddFile = (\<lambda>n src. None),
      Build = (\<lambda>files. [inst]),
      Compile = (\<lambda>n src. Inr inst),
      Process = (\<lambda>i. Inr i),
      Marshal = (\<lambda>j. Inr ''{}''),
      MarshalContext = (\<lambda>r. Inr ''{}''),
      NewBase = (\<lambda>v. case v of VOther k \<Rightarrow> Inl (External k) | _ \<Rightarrow> Inr (Instance v)),
      NewOther = (\<lambda>v. case v of VOther k \<Rightarrow> Inl (External k) | _ \<Rightarrow> Inr (Instance v)),
      Unstructured =
        (\<lambda>i. case i of Instance (VString n) \<Rightarrow> Inr (rendered n)
                      | _ \<Rightarrow> Inl (External ''no object'')),
      Unify = (\<lambda>b p. (p, None))\<rparr>"

definition instance0 :: "(string \<times> cue_value) list \<Rightarrow> cue_instance" where
  "instance0 fs =
     \<lparr>Err = None, Lookup = (\<lambda>f. case map_of fs f of None \<Rightarrow> Bottom | Some v \<Rightarrow> v)\<rparr>"

definition def0 :: "string \<Rightarrow> def" where
  "def0 n = \<lparr>name = n, params = None\<rparr>"

definition cluster2 :: client where
  "cluster2 = cluster [liveObject ''web'' Map.empty, liveObject ''svc-a'' Map.empty,
     liveObject ''svc-b'' Map.empty]"

text \<open>A context whose Base is the rendered object \<open>web\<close>, with the given auxiliaries.\<close>

definition context1 :: "Auxiliary list \<Rightarrow> Context" where
  "context1 as = \<lparr>base = Some (Instance (VString ''web'')), auxiliaries = as,
      BaseContextFile = [], BaseContextLabels = []\<rparr>"

text \<open>A context with two named auxiliaries of the given type and two base-context labels.\<close>

definition context2 :: "string \<Rightarrow> Context" where
  "context2 ty =
     \<lparr>base = Some (Instance (VString ''web'')),
      auxiliaries =
        [\<lparr>Ins = Instance (VString ''svc-a''), Type = ty, Name = ''a'', IsOutputs = True\<rparr>,
         \<lparr>Ins = Instance (VString ''svc-b''), Type = ty, Name = ''b'', IsOutputs = True\<rparr>],
      BaseContextFile = [],
      BaseContextLabels = [(''appName'', ''shop''), (''name'', ''web'')]\<rparr>"

text \<open>
  An evaluated template: \<open>output\<close> is the object \<open>frontend\<close>; \<open>outputs\<close> has two plain
  fields around a definition, a hidden and an optional field, the last plain field
  holding the given value.
\<close>

definition outputsFields :: "cue_value \<Rightarrow> FieldInfo list" where
  "outputsFields v =
     [FieldInfo ''service'' (VString ''svc'') False False False,
      FieldInfo ''Schema'' (VString ''schema'') True False False,
      FieldInfo ''_tmp'' (VString ''tmp'') False True False,
      FieldInfo ''extra'' (VString ''extra'') False False True,
      FieldInfo ''ingress'' v False False False]"

definition renderedInstance :: "cue_value \<Rightarrow> cue_instance" where
  "renderedInstance v =
     instance0 [(''output'', VString ''frontend''), (''outputs'', VStruct (outputsFields v))]"

text \<open>The same evaluated template with a field \<open>patch\<close>.\<close>

definition patchedInstance :: "cue_value \<Rightarrow> cue_instance" where
  "patchedInstance v =
     instance0 [(''output'', VString ''frontend''), (''outputs'', VStruct (outputsFields v)),
                (''patch'', VString ''patched'')]"

text \<open>
  A context whose Base is rendered without a name, with three base-context labels, and
  a cluster that holds one object.
\<close>

definition context3 :: "Auxiliary list \<Rightarrow> Context" where
  "context3 as = \<lparr>base = Some (Instance (VString [])), auxiliaries = as,
      BaseContextFile = [],
      BaseContextLabels = [(''appName'', ''shop''), (''name'', ''web''), (''zone'', ''eu'')]\<rparr>"

definition cluster1 :: client where
  "cluster1 = cluster [liveObject ''web'' Map.empty]"

lemmas fixture_defs = engine0_def instance0_def renderedInstance_def patchedInstance_def
  outputsFields_def def0_def context1_def context2_def cluster2_def cluster_def liveObject_def
  rendered_def gvkService_def oam0_def

lemmas const_defs = OutputFieldName_def OutputsFieldName_def PatchFieldName_def
  AuxiliaryWorkload_def auxiliaryNameMessage_def

lemmas eval_defs = addFiles_def wd_Complete_def td_Complete_def td_output_def td_outputs_def
  td_patch_def SetBase_def PutAuxiliaries_def Output_def

section \<open>Properties of the live-resource resolver\<close>

lemma scanItems_find:
  "scanItems key r items = find (\<lambda>v. index (GetLabels v) key = r) items"
  by (induction items) simp_all

lemma index_empty_iff: "index m k = [] \<longleftrightarrow> m k = None \<or> m k = Some []"
  by (simp add: index_def split: option.splits)

text \<open>
  Claim C10. A call of \<open>getResourceFromObj\<close> with a non-empty \<open>outputsResource\<close>
  writes into the caller's label map: whatever the call returns, and also when the
  object is fetched by name and the labels are never read, the map afterwards binds
  the key \<open>oam.TraitResource\<close> to \<open>outputsResource\<close> and is the given map at every
  other key.
\<close>

theorem getResourceFromObj_labels_after:
  "outputsResource \<noteq> [] \<Longrightarrow>
     fst (getResourceFromObj c obj cli ns labels outputsResource) =
       labels(TraitResource c \<mapsto> outputsResource)"
  by (simp add: getResourceFromObj_def Let_def split: sum.splits option.splits)

text \<open>The by-name path: the object is named \<open>web\<close>, and the map has changed.\<close>

theorem getResourceFromObj_labels_after_witness:
  "''svc'' \<noteq> [] \<and>
   fst (getResourceFromObj oam0 (rendered ''web'') (cluster []) ''default''
          [''trait.oam.dev/type'' \<mapsto> ''AuxiliaryWorkload''] ''svc'') =
     [''trait.oam.dev/type'' \<mapsto> ''AuxiliaryWorkload'', ''trait.oam.dev/resource'' \<mapsto> ''svc'']"
  using getResourceFromObj_labels_after [of "''svc''" oam0 "rendered ''web''" "cluster []"
      "''default''" "[''trait.oam.dev/type'' \<mapsto> ''AuxiliaryWorkload'']"]
  by (simp add: oam0_def)

text \<open>
  Claim C2, as the spec states it: for an object without a name the labels passed to
  the list operation are the same for a non-empty and for an empty
  \<open>outputsResource\<close>. The code differs: the key \<open>oam.TraitResource\<close> is written into
  the labels before the listing. At the labels \<open>{trait.oam.dev/type:
  AuxiliaryWorkload}\<close> the two list operations get different label sets.
\<close>

theorem getResourceFromObj_list_labels_counterexample:
  "fst (snd (getResourceFromObj oam0 (rendered []) (cluster []) ''default''
          [''trait.oam.dev/type'' \<mapsto> ''AuxiliaryWorkload''] ''svc'')) \<noteq>
   fst (snd (getResourceFromObj oam0 (rendered []) (cluster []) ''default''
          [''trait.oam.dev/type'' \<mapsto> ''AuxiliaryWorkload''] []))"
proof -
  have "[''trait.oam.dev/type'' \<mapsto> ''AuxiliaryWorkload'', ''trait.oam.dev/resource'' \<mapsto> ''svc'']
          ''trait.oam.dev/resource'' \<noteq>
        [''trait.oam.dev/type'' \<mapsto> ''AuxiliaryWorkload''] ''trait.oam.dev/resource''"
    by simp
  then have
    "[''trait.oam.dev/type'' \<mapsto> ''AuxiliaryWorkload'', ''trait.oam.dev/resource'' \<mapsto> ''svc''] \<noteq>
     [''trait.oam.dev/type'' \<mapsto> ''AuxiliaryWorkload'']"
    by metis
  then show ?thesis
    by (simp add: getResourceFromObj_def Let_def oam0_def rendered_def cluster_def)
qed

text \<open>
  Claim C2, amended: for an object without a name the only read is one list operation,
  and its labels are the given label set with the key \<open>oam.TraitResource\<close> bound to
  \<open>outputsResource\<close> when \<open>outputsResource\<close> is not empty, and exactly the given label
  set when it is empty.
\<close>

theorem getResourceFromObj_list_labels:
  "GetName obj = [] \<Longrightarrow>
     fst (snd (getResourceFromObj c obj cli ns labels outputsResource)) =
       [ClusterList (GroupVersionKind obj) ns
          (if outputsResource \<noteq> [] then labels(TraitResource c \<mapsto> outputsResource)
           else labels)]"
  by (simp add: getResourceFromObj_def Let_def split: sum.splits option.splits)

theorem getResourceFromObj_list_labels_witness:
  "GetName (rendered []) = [] \<and>
   fst (snd (getResourceFromObj oam0 (rendered []) (cluster []) ''default''
          [''trait.oam.dev/type'' \<mapsto> ''AuxiliaryWorkload''] ''svc'')) =
     [ClusterList gvkService ''default''
       [''trait.oam.dev/type'' \<mapsto> ''AuxiliaryWorkload'',
        ''trait.oam.dev/resource'' \<mapsto> ''svc'']]"
  using getResourceFromObj_list_labels [of "rendered []" oam0 "cluster []" "''default''"
      "[''trait.oam.dev/type'' \<mapsto> ''AuxiliaryWorkload'']" "''svc''"]
  by (simp add: oam0_def rendered_def)

text \<open>
  Claim C9. With an empty \<open>outputsResource\<close>, an object without a name and a listing
  of two or more candidates, the resolver returns the first candidate in list order
  whose label \<open>oam.TraitResource\<close> reads as the empty string, that is, is absent (a
  missing key of a Go map reads as the empty string) or bound to the empty string. It
  fails, with the error that carries the kind and the labels, only when no candidate
  is such, that is, when every candidate carries a non-empty label.
\<close>

theorem getResourceFromObj_first_unlabelled:
  assumes "GetName obj = []"
    and "GetObjectsGivenGVKAndLabels cli (GroupVersionKind obj) ns labels = Inr items"
    and "2 \<le> length items"
  shows "snd (snd (getResourceFromObj c obj cli ns labels [])) =
     (case find (\<lambda>v. GetLabels v (TraitResource c) = None \<or>
                      GetLabels v (TraitResource c) = Some []) items of
        Some v \<Rightarrow> Inr (Object v)
      | None \<Rightarrow> Inl (NoResourcesFound (GroupVersionKind obj) labels))"
  using assms
  by (simp add: getResourceFromObj_def scanItems_find index_empty_iff split: option.splits)

text \<open>Three candidates: the first is labelled \<open>a\<close>, the second carries no label.\<close>

theorem getResourceFromObj_first_unlabelled_witness:
  "GetName (rendered []) = [] \<and>
   GetObjectsGivenGVKAndLabels
     (cluster [liveObject ''a'' [''trait.oam.dev/resource'' \<mapsto> ''a''],
               liveObject ''b'' Map.empty,
               liveObject ''c'' [''trait.oam.dev/resource'' \<mapsto> []]])
     (GroupVersionKind (rendered [])) ''default'' Map.empty =
     Inr [liveObject ''a'' [''trait.oam.dev/resource'' \<mapsto> ''a''],
          liveObject ''b'' Map.empty,
          liveObject ''c'' [''trait.oam.dev/resource'' \<mapsto> []]] \<and>
   (2::nat) \<le> length [liveObject ''a'' [''trait.oam.dev/resource'' \<mapsto> ''a''],
          liveObject ''b'' Map.empty,
          liveObject ''c'' [''trait.oam.dev/resource'' \<mapsto> []]] \<and>
   snd (snd (getResourceFromObj oam0 (rendered [])
     (cluster [liveObject ''a'' [''trait.oam.dev/resource'' \<mapsto> ''a''],
               liveObject ''b'' Map.empty,
               liveObject ''c'' [''trait.oam.dev/resource'' \<mapsto> []]])
     ''default'' Map.empty [])) =
     Inr (JObject [(''id'', JString ''b'')])"
  using getResourceFromObj_first_unlabelled [of "rendered []"
     "cluster [liveObject ''a'' [''trait.oam.dev/resource'' \<mapsto> ''a''],
               liveObject ''b'' Map.empty,
               liveObject ''c'' [''trait.oam.dev/resource'' \<mapsto> []]]" "''default''" Map.empty
     "[liveObject ''a'' [''trait.oam.dev/resource'' \<mapsto> ''a''],
       liveObject ''b'' Map.empty,
       liveObject ''c'' [''trait.oam.dev/resource'' \<mapsto> []]]" oam0]
  by (simp add: oam0_def rendered_def cluster_def liveObject_def)

section \<open>Properties of the expression evaluator, HealthCheck and Status\<close>

text \<open>
  Claim C4. For both renderers and every context, client and namespace, \<open>HealthCheck\<close>
  with an empty policy template returns \<open>(true, nil)\<close> and \<open>Status\<close> with an empty
  status template returns the empty string and no error; no cluster read and no
  compilation is performed.
\<close>

theorem empty_template_short_circuit:
  "wd_HealthCheck c e wd ctx cli ns [] = ([], Inr True) \<and>
   wd_Status c e wd ctx cli ns [] = ([], Inr []) \<and>
   td_HealthCheck c e td ctx cli ns [] = ([], Inr True) \<and>
   td_Status c e td ctx cli ns [] = ([], Inr [])"
  by (simp add: wd_HealthCheck_def wd_Status_def td_HealthCheck_def td_Status_def)

text \<open>
  Claim C7. For every template context that serialises to JSON \<open>bt\<close> and every
  template, the evaluator compiles exactly the source text \<open>"context: " + bt + "\n" +
  template\<close>; \<open>checkHealth\<close> returns the field \<open>isHealth\<close> when it is a boolean,
  \<open>getStatusMessage\<close> the field \<open>message\<close> when it is a string, and a value that is
  missing or of another kind gives an error, never a default verdict.
\<close>

theorem evaluator_source_and_field:
  assumes "MarshalContext e templateContext = Inr bt"
  shows "checkHealth e templateContext tpl =
      ([CueCompile ''-'' (''context: '' @ bt @ [CHR 0x0A] @ tpl)],
       case Compile e ''-'' (''context: '' @ bt @ [CHR 0x0A] @ tpl) of
         Inl err \<Rightarrow> Inl (WithMessage err ''compile health template'')
       | Inr inst \<Rightarrow>
           (case Lookup inst ''isHealth'' of
              VBool healthy \<Rightarrow> Inr healthy
            | v \<Rightarrow> Inl (WithMessage (EvaluationError v) ''evaluate health status''))) \<and>
    getStatusMessage e templateContext tpl =
      ([CueCompile ''-'' (''context: '' @ bt @ [CHR 0x0A] @ tpl)],
       case Compile e ''-'' (''context: '' @ bt @ [CHR 0x0A] @ tpl) of
         Inl err \<Rightarrow> Inl err
       | Inr inst \<Rightarrow>
           (case Lookup inst ''message'' of
              VString message \<Rightarrow> Inr message
            | v \<Rightarrow> Inl (EvaluationError v)))"
  using assms
  by (simp add: checkHealth_def getStatusMessage_def HealthCheckPolicy_def CustomMessage_def
      split: sum.splits cue_value.splits)

text \<open>The compiled source has no field \<open>message\<close>, and \<open>isHealth\<close> is a string.\<close>

theorem evaluator_source_and_field_witness:
  "MarshalContext (engine0 (instance0 [(''isHealth'', VString ''yes'')])) Map.empty = Inr ''{}'' \<and>
   checkHealth (engine0 (instance0 [(''isHealth'', VString ''yes'')])) Map.empty ''isHealth: 1'' =
     ([CueCompile ''-'' (''context: {}'' @ [CHR 0x0A] @ ''isHealth: 1'')],
      Inl (WithMessage (EvaluationError (VString ''yes'')) ''evaluate health status'')) \<and>
   getStatusMessage (engine0 (instance0 [(''isHealth'', VString ''yes'')])) Map.empty ''isHealth: 1'' =
     ([CueCompile ''-'' (''context: {}'' @ [CHR 0x0A] @ ''isHealth: 1'')],
      Inl (EvaluationError Bottom))"
  using evaluator_source_and_field [of "engine0 (instance0 [(''isHealth'', VString ''yes'')])"
      Map.empty "''{}''" "''isHealth: 1''"]
  by (simp add: engine0_def instance0_def)

section \<open>Properties of the template context\<close>

lemma filter_snoc_split:
  "filter P xs = as @ [a] \<Longrightarrow> \<exists>pre post. xs = pre @ a # post \<and> P a \<and> filter P post = []"
proof (induction xs arbitrary: as)
  case Nil
  then show ?case by simp
next
  case (Cons x xs)
  show ?case
  proof (cases "P x")
    case False
    with Cons.prems have "filter P xs = as @ [a]" by simp
    from Cons.IH [OF this] obtain pre post where "xs = pre @ a # post" "P a" "filter P post = []"
      by blast
    then have "x # xs = (x # pre) @ a # post \<and> P a \<and> filter P post = []" by simp
    then show ?thesis by blast
  next
    case True
    show ?thesis
    proof (cases as)
      case Nil
      with True Cons.prems have "x # xs = [] @ a # xs \<and> P a \<and> filter P xs = []" by simp
      then show ?thesis by blast
    next
      case (Cons b bs)
      with True Cons.prems have "filter P xs = bs @ [a]" by simp
      from Cons.IH [OF this] obtain pre post where "xs = pre @ a # post" "P a" "filter P post = []"
        by blast
      then have "x # xs = (x # pre) @ a # post \<and> P a \<and> filter P post = []" by simp
      then show ?thesis by blast
    qed
  qed
qed

lemma wd_rangeAssists_append:
  "wd_rangeAssists c e cli ns cl (xs @ ys) root =
     (case wd_rangeAssists c e cli ns cl xs root of
        (evs, Inl err) \<Rightarrow> (evs, Inl err)
      | (evs, Inr r1) \<Rightarrow>
          (case wd_rangeAssists c e cli ns cl ys r1 of (evs', r) \<Rightarrow> (evs @ evs', r)))"
  by (induction xs arbitrary: root) (auto split: sum.splits prod.splits)

lemma td_rangeAssists_append:
  "td_rangeAssists c e td cli ns cl (xs @ ys) root =
     (case td_rangeAssists c e td cli ns cl xs root of
        (evs, Inl err) \<Rightarrow> (evs, Inl err)
      | (evs, Inr r1) \<Rightarrow>
          (case td_rangeAssists c e td cli ns cl ys r1 of (evs', r) \<Rightarrow> (evs @ evs', r)))"
  by (induction xs arbitrary: root) (auto split: sum.splits prod.splits)

lemma wd_rangeAssists_skip:
  "filter (\<lambda>a. Type a = AuxiliaryWorkload) xs = [] \<Longrightarrow>
     wd_rangeAssists c e cli ns cl xs root = ([], Inr root)"
  by (induction xs) (auto split: if_splits)

lemma td_rangeAssists_keeps_outputs:
  "filter (\<lambda>a. Type a = name td \<and> IsOutputs a) xs = [] \<Longrightarrow>
   td_rangeAssists c e td cli ns cl xs root = (evs, Inr root') \<Longrightarrow>
     root' OutputsFieldName = root OutputsFieldName"
proof (induction xs arbitrary: root evs)
  case Nil
  then show ?case by simp
next
  case (Cons x xs)
  show ?case
  proof (cases "Type x = name td")
    case False
    with Cons show ?thesis by simp
  next
    case True
    with Cons.prems(1) have no: "\<not> IsOutputs x"
      and rest: "filter (\<lambda>a. Type a = name td \<and> IsOutputs a) xs = []"
      by (simp_all split: if_splits)
    from Cons.prems(2) True no have
      "\<exists>o1 evs1. td_rangeAssists c e td cli ns cl xs (root(OutputFieldName \<mapsto> o1)) = (evs1, Inr root')"
      by (auto split: sum.splits prod.splits)
    then obtain o1 evs1 where
      "td_rangeAssists c e td cli ns cl xs (root(OutputFieldName \<mapsto> o1)) = (evs1, Inr root')"
      by blast
    from Cons.IH [OF rest this] show ?thesis
      by (simp add: OutputFieldName_def OutputsFieldName_def)
  qed
qed

lemma wd_rangeAssists_last:
  assumes ok: "wd_rangeAssists c e cli ns cl xs root = (evs, Inr root')"
    and last: "filter (\<lambda>a. Type a = AuxiliaryWorkload) xs = as @ [a]"
    and ref: "Unstructured e (Ins a) = Inr ref"
    and obj: "getResourceFromObj c ref cli ns
          (MergeMapOverrideWithDst [TraitTypeLabel c \<mapsto> AuxiliaryWorkload] cl)
          (Auxiliary.Name a) = (l, ev, Inr obj)"
  shows "root' OutputsFieldName = Some (JObject [(Auxiliary.Name a, obj)])"
proof -
  from filter_snoc_split [OF last] obtain pre post where
    xs: "xs = pre @ a # post" and ty: "Type a = AuxiliaryWorkload"
    and post: "filter (\<lambda>a. Type a = AuxiliaryWorkload) post = []"
    by blast
  obtain ev1 r1 where pre: "wd_rangeAssists c e cli ns cl pre root = (ev1, r1)"
    by (cases "wd_rangeAssists c e cli ns cl pre root")
  from ok show ?thesis
    unfolding xs wd_rangeAssists_append pre
    by (cases r1)
       (auto simp: ty ref obj wd_rangeAssists_skip [OF post] split: if_splits)
qed

lemma td_rangeAssists_last:
  assumes ok: "td_rangeAssists c e td cli ns cl xs root = (evs, Inr root')"
    and last: "filter (\<lambda>a. Type a = name td \<and> IsOutputs a) xs = as @ [a]"
    and ref: "Unstructured e (Ins a) = Inr ref"
    and obj: "getResourceFromObj c ref cli ns
          (MergeMapOverrideWithDst [TraitTypeLabel c \<mapsto> Type a] cl)
          (Auxiliary.Name a) = (l, ev, Inr obj)"
  shows "root' OutputsFieldName = Some (JObject [(Auxiliary.Name a, obj)])"
proof -
  from filter_snoc_split [OF last] obtain pre post where
    xs: "xs = pre @ a # post" and ty: "Type a = name td" and out: "IsOutputs a"
    and post: "filter (\<lambda>a. Type a = name td \<and> IsOutputs a) post = []"
    by blast
  note obj' = obj [unfolded ty]
  obtain ev1 r1 where pre: "td_rangeAssists c e td cli ns cl pre root = (ev1, r1)"
    by (cases "td_rangeAssists c e td cli ns cl pre root")
  show ?thesis
  proof (cases r1)
    case (Inl err)
    with ok show ?thesis
      unfolding xs td_rangeAssists_append pre by simp
  next
    case (Inr b)
    obtain ev2 r2 where rest: "td_rangeAssists c e td cli ns cl post
        (b(OutputsFieldName \<mapsto> JObject [(Auxiliary.Name a, obj)])) = (ev2, r2)"
      by (cases "td_rangeAssists c e td cli ns cl post
        (b(OutputsFieldName \<mapsto> JObject [(Auxiliary.Name a, obj)]))")
    from ok have r2: "r2 = Inr root'"
      unfolding xs td_rangeAssists_append pre
      by (simp add: Inr ty out ref obj' rest)
    from td_rangeAssists_keeps_outputs [OF post rest [unfolded r2]]
    show ?thesis by simp
  qed
qed


text \<open>
  Claim C3. When the workload variant succeeds, \<open>root.outputs\<close> is the single-entry
  map of the last auxiliary of type \<open>AuxiliaryWorkload\<close>, bound to the object the
  resolver returned for it: every iteration overwrites the key. The trait variant does
  the same for the last auxiliary of the trait's type with \<open>IsOutputs\<close>.
\<close>

theorem getTemplateContext_outputs_last:
  "(wd_getTemplateContext c e wd ctx cli ns = (evs, Inr root) \<and>
    filter (\<lambda>a. Type a = AuxiliaryWorkload) (auxiliaries ctx) = as @ [a] \<and>
    Unstructured e (Ins a) = Inr ref \<and>
    getResourceFromObj c ref cli ns
      (MergeMapOverrideWithDst [TraitTypeLabel c \<mapsto> AuxiliaryWorkload]
         (snd (rangeBaseContextLabels c (BaseContextLabels ctx) (Map.empty, Map.empty))))
      (Auxiliary.Name a) = (l, ev, Inr obj)
    \<longrightarrow> root OutputsFieldName = Some (JObject [(Auxiliary.Name a, obj)])) \<and>
   (td_getTemplateContext c e td ctx cli ns = (evs, Inr root) \<and>
    filter (\<lambda>a. Type a = name td \<and> IsOutputs a) (auxiliaries ctx) = as @ [a] \<and>
    Unstructured e (Ins a) = Inr ref \<and>
    getResourceFromObj c ref cli ns
      (MergeMapOverrideWithDst [TraitTypeLabel c \<mapsto> Type a]
         (snd (rangeBaseContextLabels c (BaseContextLabels ctx) (Map.empty, Map.empty))))
      (Auxiliary.Name a) = (l, ev, Inr obj)
    \<longrightarrow> root OutputsFieldName = Some (JObject [(Auxiliary.Name a, obj)]))"
proof (intro conjI impI)
  assume h: "wd_getTemplateContext c e wd ctx cli ns = (evs, Inr root) \<and>
    filter (\<lambda>a. Type a = AuxiliaryWorkload) (auxiliaries ctx) = as @ [a] \<and>
    Unstructured e (Ins a) = Inr ref \<and>
    getResourceFromObj c ref cli ns
      (MergeMapOverrideWithDst [TraitTypeLabel c \<mapsto> AuxiliaryWorkload]
         (snd (rangeBaseContextLabels c (BaseContextLabels ctx) (Map.empty, Map.empty))))
      (Auxiliary.Name a) = (l, ev, Inr obj)"
  obtain r0 cl where lab: "rangeBaseContextLabels c (BaseContextLabels ctx) (Map.empty, Map.empty) = (r0, cl)"
    by (cases "rangeBaseContextLabels c (BaseContextLabels ctx) (Map.empty, Map.empty)")
  from h lab have "\<exists>r1 evs1. wd_rangeAssists c e cli ns cl (auxiliaries ctx) r1 = (evs1, Inr root)"
    by (auto simp: wd_getTemplateContext_def Output_def split: option.splits sum.splits prod.splits)
  then obtain r1 evs1 where "wd_rangeAssists c e cli ns cl (auxiliaries ctx) r1 = (evs1, Inr root)"
    by blast
  from wd_rangeAssists_last [OF this] h lab
  show "root OutputsFieldName = Some (JObject [(Auxiliary.Name a, obj)])"
    by simp
next
  assume h: "td_getTemplateContext c e td ctx cli ns = (evs, Inr root) \<and>
    filter (\<lambda>a. Type a = name td \<and> IsOutputs a) (auxiliaries ctx) = as @ [a] \<and>
    Unstructured e (Ins a) = Inr ref \<and>
    getResourceFromObj c ref cli ns
      (MergeMapOverrideWithDst [TraitTypeLabel c \<mapsto> Type a]
         (snd (rangeBaseContextLabels c (BaseContextLabels ctx) (Map.empty, Map.empty))))
      (Auxiliary.Name a) = (l, ev, Inr obj)"
  obtain r0 cl where lab: "rangeBaseContextLabels c (BaseContextLabels ctx) (Map.empty, Map.empty) = (r0, cl)"
    by (cases "rangeBaseContextLabels c (BaseContextLabels ctx) (Map.empty, Map.empty)")
  from h lab have "td_rangeAssists c e td cli ns cl (auxiliaries ctx) r0 = (evs, Inr root)"
    by (simp add: td_getTemplateContext_def Output_def)
  from td_rangeAssists_last [OF this] h lab
  show "root OutputsFieldName = Some (JObject [(Auxiliary.Name a, obj)])"
    by simp
qed

text \<open>Two auxiliaries \<open>a\<close> and \<open>b\<close>: only \<open>b\<close> is in \<open>root.outputs\<close>.\<close>

theorem getTemplateContext_outputs_last_witness:
  "(wd_getTemplateContext oam0 (engine0 (instance0 [])) (def0 ''webservice'')
      (context2 ''AuxiliaryWorkload'') cluster2 ''default'' =
     ([ClusterGet gvkService ''default'' ''web'', ClusterGet gvkService ''default'' ''svc-a'',
       ClusterGet gvkService ''default'' ''svc-b''],
      Inr [''appName'' \<mapsto> JString ''shop'', ''name'' \<mapsto> JString ''web'',
           ''output'' \<mapsto> JObject [(''id'', JString ''web'')],
           ''outputs'' \<mapsto> JObject [(''b'', JObject [(''id'', JString ''svc-b'')])]]) \<and>
    [''appName'' \<mapsto> JString ''shop'', ''name'' \<mapsto> JString ''web'',
     ''output'' \<mapsto> JObject [(''id'', JString ''web'')],
     ''outputs'' \<mapsto> JObject [(''b'', JObject [(''id'', JString ''svc-b'')])]] OutputsFieldName =
      Some (JObject [(''b'', JObject [(''id'', JString ''svc-b'')])])) \<and>
   (td_getTemplateContext oam0 (engine0 (instance0 [])) (def0 ''expose'')
      (context2 ''expose'') cluster2 ''default'' =
     ([ClusterGet gvkService ''default'' ''svc-a'', ClusterGet gvkService ''default'' ''svc-b''],
      Inr [''appName'' \<mapsto> JString ''shop'', ''name'' \<mapsto> JString ''web'',
           ''outputs'' \<mapsto> JObject [(''b'', JObject [(''id'', JString ''svc-b'')])]]) \<and>
    [''appName'' \<mapsto> JString ''shop'', ''name'' \<mapsto> JString ''web'',
     ''outputs'' \<mapsto> JObject [(''b'', JObject [(''id'', JString ''svc-b'')])]] OutputsFieldName =
      Some (JObject [(''b'', JObject [(''id'', JString ''svc-b'')])]))"
proof -
  let ?a = "\<lambda>ty. \<lparr>Ins = Instance (VString ''svc-a''), Type = ty, Name = ''a'', IsOutputs = True\<rparr>"
  let ?b = "\<lambda>ty. \<lparr>Ins = Instance (VString ''svc-b''), Type = ty, Name = ''b'', IsOutputs = True\<rparr>"
  let ?e = "engine0 (instance0 [])"
  let ?cl = "\<lambda>ty. snd (rangeBaseContextLabels oam0 (BaseContextLabels (context2 ty))
                (Map.empty, Map.empty))"
  have w: "wd_getTemplateContext oam0 ?e (def0 ''webservice'')
      (context2 ''AuxiliaryWorkload'') cluster2 ''default'' =
     ([ClusterGet gvkService ''default'' ''web'', ClusterGet gvkService ''default'' ''svc-a'',
       ClusterGet gvkService ''default'' ''svc-b''],
      Inr [''appName'' \<mapsto> JString ''shop'', ''name'' \<mapsto> JString ''web'',
           ''output'' \<mapsto> JObject [(''id'', JString ''web'')],
           ''outputs'' \<mapsto> JObject [(''b'', JObject [(''id'', JString ''svc-b'')])]])"
    by (simp add: wd_getTemplateContext_def Output_def getResourceFromObj_def
        fixture_defs const_defs)
  have t: "td_getTemplateContext oam0 ?e (def0 ''expose'') (context2 ''expose'') cluster2
      ''default'' =
     ([ClusterGet gvkService ''default'' ''svc-a'', ClusterGet gvkService ''default'' ''svc-b''],
      Inr [''appName'' \<mapsto> JString ''shop'', ''name'' \<mapsto> JString ''web'',
           ''outputs'' \<mapsto> JObject [(''b'', JObject [(''id'', JString ''svc-b'')])]])"
    by (simp add: td_getTemplateContext_def Output_def getResourceFromObj_def
        fixture_defs const_defs)
  have fw: "filter (\<lambda>a. Type a = AuxiliaryWorkload) (auxiliaries (context2 ''AuxiliaryWorkload'')) =
      [?a ''AuxiliaryWorkload''] @ [?b ''AuxiliaryWorkload'']"
    by (simp add: fixture_defs const_defs)
  have ft: "filter (\<lambda>a. Type a = name (def0 ''expose'') \<and> IsOutputs a)
      (auxiliaries (context2 ''expose'')) = [?a ''expose''] @ [?b ''expose'']"
    by (simp add: fixture_defs const_defs)
  have u: "Unstructured ?e (Ins (?b ty)) = Inr (rendered ''svc-b'')" for ty
    by (simp add: fixture_defs)
  have gw: "getResourceFromObj oam0 (rendered ''svc-b'') cluster2 ''default''
      (MergeMapOverrideWithDst [TraitTypeLabel oam0 \<mapsto> AuxiliaryWorkload] (?cl ''AuxiliaryWorkload''))
      (Auxiliary.Name (?b ''AuxiliaryWorkload'')) =
      ((MergeMapOverrideWithDst [TraitTypeLabel oam0 \<mapsto> AuxiliaryWorkload]
          (?cl ''AuxiliaryWorkload''))(TraitResource oam0 \<mapsto> ''b''),
       [ClusterGet gvkService ''default'' ''svc-b''], Inr (JObject [(''id'', JString ''svc-b'')]))"
    by (simp add: getResourceFromObj_def fixture_defs)
  have gt: "getResourceFromObj oam0 (rendered ''svc-b'') cluster2 ''default''
      (MergeMapOverrideWithDst [TraitTypeLabel oam0 \<mapsto> Type (?b ''expose'')] (?cl ''expose''))
      (Auxiliary.Name (?b ''expose'')) =
      ((MergeMapOverrideWithDst [TraitTypeLabel oam0 \<mapsto> Type (?b ''expose'')]
          (?cl ''expose''))(TraitResource oam0 \<mapsto> ''b''),
       [ClusterGet gvkService ''default'' ''svc-b''], Inr (JObject [(''id'', JString ''svc-b'')]))"
    by (simp add: getResourceFromObj_def fixture_defs)
  note c1 = getTemplateContext_outputs_last [THEN conjunct1, rule_format,
      OF conjI [OF w conjI [OF fw conjI [OF u gw]]]]
  note c2 = getTemplateContext_outputs_last [THEN conjunct2, rule_format,
      OF conjI [OF t conjI [OF ft conjI [OF u gt]]]]
  have r1: "[''appName'' \<mapsto> JString ''shop'', ''name'' \<mapsto> JString ''web'',
     ''output'' \<mapsto> JObject [(''id'', JString ''web'')],
     ''outputs'' \<mapsto> JObject [(''b'', JObject [(''id'', JString ''svc-b'')])]] OutputsFieldName =
      Some (JObject [(''b'', JObject [(''id'', JString ''svc-b'')])])"
    using c1 by simp
  have r2: "[''appName'' \<mapsto> JString ''shop'', ''name'' \<mapsto> JString ''web'',
     ''outputs'' \<mapsto> JObject [(''b'', JObject [(''id'', JString ''svc-b'')])]] OutputsFieldName =
      Some (JObject [(''b'', JObject [(''id'', JString ''svc-b'')])])"
    using c2 by simp
  show ?thesis
    by (intro conjI) (rule w r1 t r2)+
qed

lemma wd_rangeAssists_unnamed:
  "wd_rangeAssists c e cli ns cl pre r = (evs1, Inr r1) \<Longrightarrow>
   Type a = AuxiliaryWorkload \<Longrightarrow> Auxiliary.Name a = [] \<Longrightarrow>
     wd_rangeAssists c e cli ns cl (pre @ a # post) r = (evs1, Inl (New auxiliaryNameMessage))"
  by (simp add: wd_rangeAssists_append)

lemma wd_rangeAssists_other_type:
  "Type a \<noteq> AuxiliaryWorkload \<Longrightarrow>
     wd_rangeAssists c e cli ns cl (pre @ a # post) r =
     wd_rangeAssists c e cli ns cl (pre @ post) r"
  by (simp add: wd_rangeAssists_append split: prod.splits sum.splits)

lemma td_rangeAssists_unnamed:
  "td_rangeAssists c e td cli ns cl pre r = (evs1, Inr r1) \<Longrightarrow>
   Type a = name td \<Longrightarrow> IsOutputs a \<Longrightarrow> Auxiliary.Name a = [] \<Longrightarrow>
   Unstructured e (Ins a) = Inr ref \<Longrightarrow>
   getResourceFromObj c ref cli ns
      (MergeMapOverrideWithDst [TraitTypeLabel c \<mapsto> name td] cl) [] = (l, ev, Inr obj) \<Longrightarrow>
     td_rangeAssists c e td cli ns cl (pre @ [a]) r =
       (evs1 @ ev, Inr (r1(OutputsFieldName \<mapsto> JObject [([], obj)])))"
  by (simp add: td_rangeAssists_append)

text \<open>
  Claim C1, as the spec states it: an auxiliary with \<open>IsOutputs\<close> and an empty name
  makes both context builders fail with the configuration error. The code differs. For
  a context whose only auxiliary has type \<open>expose\<close>, \<open>IsOutputs\<close> and an empty name,
  the workload variant skips the auxiliary and succeeds, and the variant of the trait
  \<open>expose\<close> resolves it and stores it under the empty key of \<open>root.outputs\<close>.
\<close>

theorem auxiliary_name_check_counterexample:
  "snd (wd_getTemplateContext oam0 (engine0 (instance0 [])) (def0 ''webservice'')
      (context1 [\<lparr>Ins = Instance (VString ''svc-a''), Type = ''expose'', Name = [],
                  IsOutputs = True\<rparr>]) cluster2 ''default'') =
     Inr [''output'' \<mapsto> JObject [(''id'', JString ''web'')]] \<and>
   snd (td_getTemplateContext oam0 (engine0 (instance0 [])) (def0 ''expose'')
      (context1 [\<lparr>Ins = Instance (VString ''svc-a''), Type = ''expose'', Name = [],
                  IsOutputs = True\<rparr>]) cluster2 ''default'') =
     Inr [''outputs'' \<mapsto> JObject [([], JObject [(''id'', JString ''svc-a'')])]]"
  by (simp add: wd_getTemplateContext_def td_getTemplateContext_def Output_def
      getResourceFromObj_def fixture_defs const_defs)

text \<open>
  The trait variant checks no name: an auxiliary of the trait's type with \<open>IsOutputs\<close>
  and an empty name is resolved with an empty outputs-resource qualifier and stored
  under the empty key of \<open>root.outputs\<close>.
\<close>

lemma td_getTemplateContext_unnamed:
  assumes pre: "td_getTemplateContext c e td (ctx\<lparr>auxiliaries := pre\<rparr>) cli ns = (evs, Inr root)"
    and a: "Type a = name td" "IsOutputs a" "Auxiliary.Name a = []"
    and ref: "Unstructured e (Ins a) = Inr ref"
    and obj: "getResourceFromObj c ref cli ns
      (MergeMapOverrideWithDst [TraitTypeLabel c \<mapsto> name td]
         (snd (rangeBaseContextLabels c (BaseContextLabels ctx) (Map.empty, Map.empty)))) [] =
      (l, ev, Inr obj)"
  shows "td_getTemplateContext c e td (ctx\<lparr>auxiliaries := pre @ [a]\<rparr>) cli ns =
          (evs @ ev, Inr (root(OutputsFieldName \<mapsto> JObject [([], obj)])))"
proof -
  obtain r0 cl where lab:
    "rangeBaseContextLabels c (BaseContextLabels ctx) (Map.empty, Map.empty) = (r0, cl)"
    by (cases "rangeBaseContextLabels c (BaseContextLabels ctx) (Map.empty, Map.empty)")
  from pre lab have p: "td_rangeAssists c e td cli ns cl pre r0 = (evs, Inr root)"
    by (simp add: td_getTemplateContext_def Output_def)
  from obj lab have g: "getResourceFromObj c ref cli ns
      (MergeMapOverrideWithDst [TraitTypeLabel c \<mapsto> name td] cl) [] = (l, ev, Inr obj)"
    by simp
  from td_rangeAssists_unnamed [OF p a ref g] lab show ?thesis
    by (simp add: td_getTemplateContext_def Output_def)
qed

text \<open>
  Claim C1, amended. In the workload variant, when the context builds for the
  auxiliaries before it, an auxiliary of type \<open>AuxiliaryWorkload\<close> with an empty name
  (whatever its \<open>IsOutputs\<close>) makes the builder fail with the configuration error; an
  auxiliary of any other type is skipped, whatever its name and \<open>IsOutputs\<close>.
\<close>

theorem auxiliary_name_check:
  "(snd (wd_getTemplateContext c e wd (ctx\<lparr>auxiliaries := pre\<rparr>) cli ns) = Inr root \<and>
    Type a = AuxiliaryWorkload \<and> Auxiliary.Name a = []
    \<longrightarrow> snd (wd_getTemplateContext c e wd (ctx\<lparr>auxiliaries := pre @ a # post\<rparr>) cli ns) =
          Inl (New auxiliaryNameMessage)) \<and>
   (Type a \<noteq> AuxiliaryWorkload
    \<longrightarrow> wd_getTemplateContext c e wd (ctx\<lparr>auxiliaries := pre @ a # post\<rparr>) cli ns =
          wd_getTemplateContext c e wd (ctx\<lparr>auxiliaries := pre @ post\<rparr>) cli ns)"
proof (intro conjI impI)
  assume h: "snd (wd_getTemplateContext c e wd (ctx\<lparr>auxiliaries := pre\<rparr>) cli ns) = Inr root \<and>
    Type a = AuxiliaryWorkload \<and> Auxiliary.Name a = []"
  then show "snd (wd_getTemplateContext c e wd (ctx\<lparr>auxiliaries := pre @ a # post\<rparr>) cli ns) =
          Inl (New auxiliaryNameMessage)"
    by (auto simp: wd_getTemplateContext_def Output_def wd_rangeAssists_unnamed
        split: option.splits sum.splits prod.splits)
next
  assume "Type a \<noteq> AuxiliaryWorkload"
  then show "wd_getTemplateContext c e wd (ctx\<lparr>auxiliaries := pre @ a # post\<rparr>) cli ns =
          wd_getTemplateContext c e wd (ctx\<lparr>auxiliaries := pre @ post\<rparr>) cli ns"
    by (simp add: wd_getTemplateContext_def Output_def wd_rangeAssists_other_type
        split: prod.splits sum.splits option.splits)
qed

text \<open>
  An unnamed auxiliary of type \<open>AuxiliaryWorkload\<close> after a named one, and an unnamed
  auxiliary of type \<open>expose\<close>.
\<close>

theorem auxiliary_name_check_witness:
  "(snd (wd_getTemplateContext oam0 (engine0 (instance0 [])) (def0 ''webservice'')
       (context1 []\<lparr>auxiliaries :=
          [\<lparr>Ins = Instance (VString ''svc-a''), Type = ''AuxiliaryWorkload'', Name = ''a'',
             IsOutputs = True\<rparr>]\<rparr>) cluster2 ''default'') =
      Inr [''output'' \<mapsto> JObject [(''id'', JString ''web'')],
           ''outputs'' \<mapsto> JObject [(''a'', JObject [(''id'', JString ''svc-a'')])]] \<and>
    snd (wd_getTemplateContext oam0 (engine0 (instance0 [])) (def0 ''webservice'')
       (context1 []\<lparr>auxiliaries :=
          [\<lparr>Ins = Instance (VString ''svc-a''), Type = ''AuxiliaryWorkload'', Name = ''a'',
             IsOutputs = True\<rparr>] @
          \<lparr>Ins = Instance (VString ''svc-b''), Type = ''AuxiliaryWorkload'', Name = [],
            IsOutputs = True\<rparr> # []\<rparr>) cluster2 ''default'') =
      Inl (New auxiliaryNameMessage)) \<and>
   (wd_getTemplateContext oam0 (engine0 (instance0 [])) (def0 ''webservice'')
       (context1 []\<lparr>auxiliaries :=
          [] @ \<lparr>Ins = Instance (VString ''svc-b''), Type = ''expose'', Name = [],
                 IsOutputs = True\<rparr> # []\<rparr>) cluster2 ''default'' =
    wd_getTemplateContext oam0 (engine0 (instance0 [])) (def0 ''webservice'')
       (context1 []\<lparr>auxiliaries := [] @ []\<rparr>) cluster2 ''default'')"
proof -
  let ?e = "engine0 (instance0 [])"
  let ?a = "\<lparr>Ins = Instance (VString ''svc-a''), Type = ''AuxiliaryWorkload'', Name = ''a'',
             IsOutputs = True\<rparr>"
  let ?b = "\<lambda>ty. \<lparr>Ins = Instance (VString ''svc-b''), Type = ty, Name = [], IsOutputs = True\<rparr>"
  have h1: "snd (wd_getTemplateContext oam0 ?e (def0 ''webservice'')
       (context1 []\<lparr>auxiliaries := [?a]\<rparr>) cluster2 ''default'') =
      Inr [''output'' \<mapsto> JObject [(''id'', JString ''web'')],
           ''outputs'' \<mapsto> JObject [(''a'', JObject [(''id'', JString ''svc-a'')])]] \<and>
      Type (?b ''AuxiliaryWorkload'') = AuxiliaryWorkload \<and>
      Auxiliary.Name (?b ''AuxiliaryWorkload'') = []"
    by (simp add: wd_getTemplateContext_def Output_def getResourceFromObj_def
        fixture_defs const_defs)
  have h2: "Type (?b ''expose'') \<noteq> AuxiliaryWorkload"
    by (simp add: const_defs)
  note c1 = auxiliary_name_check [THEN conjunct1, rule_format, OF h1, where post = "[]"]
  note c2 = auxiliary_name_check [THEN conjunct2, rule_format, OF h2,
      where c = oam0 and e = ?e and wd = "def0 ''webservice''" and ctx = "context1 []"
        and pre = "[]" and post = "[]" and cli = cluster2 and ns = "''default''"]
  show ?thesis
    by (intro conjI) (rule h1 [THEN conjunct1] c1 c2)+
qed

lemma rangeBaseContextLabels_root_other:
  "k \<notin> fst ` set kvs \<Longrightarrow> fst (rangeBaseContextLabels c kvs (root, cl)) k = root k"
  by (induction kvs arbitrary: root cl) auto

lemma rangeBaseContextLabels_root:
  "distinct (map fst kvs) \<Longrightarrow> (k, v) \<in> set kvs \<Longrightarrow>
     fst (rangeBaseContextLabels c kvs (root, cl)) k = Some (JString v)"
proof (induction kvs arbitrary: root cl)
  case Nil
  then show ?case by simp
next
  case (Cons kv kvs)
  obtain k' v' where kv: "kv = (k', v')" by (cases kv)
  show ?case
  proof (cases "(k, v) = (k', v')")
    case True
    with Cons.prems kv have "k \<notin> fst ` set kvs" by auto
    from rangeBaseContextLabels_root_other [OF this] True kv show ?thesis by simp
  next
    case False
    with Cons.prems kv have "distinct (map fst kvs)" "(k, v) \<in> set kvs" by auto
    from Cons.IH [OF this] kv show ?thesis by simp
  qed
qed

lemma rangeBaseContextLabels_common:
  "distinct (map fst kvs) \<Longrightarrow> LabelAppName c \<noteq> LabelAppComponent c \<Longrightarrow>
     snd (rangeBaseContextLabels c kvs (root, cl)) =
       (\<lambda>k. if k = LabelAppName c \<and> map_of kvs ''appName'' \<noteq> None then map_of kvs ''appName''
            else if k = LabelAppComponent c \<and> map_of kvs ''name'' \<noteq> None then map_of kvs ''name''
            else cl k)"
proof (induction kvs arbitrary: root cl)
  case Nil
  then show ?case by simp
next
  case (Cons kv kvs)
  obtain k' v' where kv: "kv = (k', v')" by (cases kv)
  from Cons.prems kv have d: "distinct (map fst kvs)" and n: "map_of kvs k' = None"
    by (auto simp: map_of_eq_None_iff)
  from Cons.IH [OF d Cons.prems(2)] kv n Cons.prems(2) show ?case
    by (auto simp: fun_eq_iff)
qed

lemma rangeBaseContextLabels_filter:
  "snd (rangeBaseContextLabels c kvs (root, cl)) =
   snd (rangeBaseContextLabels c (filter (\<lambda>(k, v). k = ''appName'' \<or> k = ''name'') kvs) (root', cl))"
proof (induction kvs arbitrary: root root' cl)
  case Nil
  then show ?case by simp
next
  case (Cons kv kvs)
  obtain k v where kv: "kv = (k, v)" by (cases kv)
  show ?case
  proof (cases "k = ''appName'' \<or> k = ''name''")
    case True
    then show ?thesis
      unfolding kv using Cons.IH [of "root(k \<mapsto> JString v)" _ "root'(k \<mapsto> JString v)"]
      by (auto simp: fun_upd_def)
  next
    case False
    then show ?thesis
      unfolding kv using Cons.IH [of "root(k \<mapsto> JString v)" cl root']
      by (simp add: fun_upd_def)
  qed
qed

lemma wd_rangeAssists_reads:
  "fst (wd_rangeAssists c e cli ns cl xs r) = fst (wd_rangeAssists c e cli ns cl xs r') \<and>
   isl (snd (wd_rangeAssists c e cli ns cl xs r)) = isl (snd (wd_rangeAssists c e cli ns cl xs r'))"
proof (induction xs arbitrary: r r')
  case Nil
  then show ?case by simp
next
  case (Cons x xs)
  show ?case
  proof (cases "Type x \<noteq> AuxiliaryWorkload")
    case True
    with Cons [of r r'] show ?thesis by simp
  next
    case False
    show ?thesis
    proof (cases "Unstructured e (Ins x)")
      case (Inl err)
      with False show ?thesis by simp
    next
      case (Inr ref)
      obtain l ev res where g: "getResourceFromObj c ref cli ns
          (MergeMapOverrideWithDst [TraitTypeLabel c \<mapsto> AuxiliaryWorkload] cl)
          (Auxiliary.Name x) = (l, ev, res)"
        using prod_cases3 by blast
      show ?thesis
      proof (cases res)
        case (Inl err)
        with False Inr g show ?thesis by simp
      next
        case obj: (Inr object)
        obtain e1 q1 where c1: "wd_rangeAssists c e cli ns cl xs
            (r(OutputsFieldName \<mapsto> JObject [(Auxiliary.Name x, object)])) = (e1, q1)"
          by (cases "wd_rangeAssists c e cli ns cl xs
            (r(OutputsFieldName \<mapsto> JObject [(Auxiliary.Name x, object)]))")
        obtain e2 q2 where c2: "wd_rangeAssists c e cli ns cl xs
            (r'(OutputsFieldName \<mapsto> JObject [(Auxiliary.Name x, object)])) = (e2, q2)"
          by (cases "wd_rangeAssists c e cli ns cl xs
            (r'(OutputsFieldName \<mapsto> JObject [(Auxiliary.Name x, object)]))")
        from Cons c1 c2 have "e1 = e2 \<and> isl q1 = isl q2"
          by (metis fst_conv snd_conv)
        with False Inr g obj c1 c2 show ?thesis by simp
      qed
    qed
  qed
qed

lemma td_rangeAssists_reads:
  "fst (td_rangeAssists c e td cli ns cl xs r) = fst (td_rangeAssists c e td cli ns cl xs r') \<and>
   isl (snd (td_rangeAssists c e td cli ns cl xs r)) =
     isl (snd (td_rangeAssists c e td cli ns cl xs r'))"
proof (induction xs arbitrary: r r')
  case Nil
  then show ?case by simp
next
  case (Cons x xs)
  show ?case
  proof (cases "Type x \<noteq> name td")
    case True
    with Cons [of r r'] show ?thesis by simp
  next
    case False
    show ?thesis
    proof (cases "Unstructured e (Ins x)")
      case (Inl err)
      with False show ?thesis by simp
    next
      case (Inr ref)
      obtain l ev res where g: "getResourceFromObj c ref cli ns
          (MergeMapOverrideWithDst [TraitTypeLabel c \<mapsto> name td] cl)
          (Auxiliary.Name x) = (l, ev, res)"
        using prod_cases3 by blast
      show ?thesis
      proof (cases res)
        case (Inl err)
        with False Inr g show ?thesis by simp
      next
        case obj: (Inr object)
        define u where "u = (\<lambda>r0. if IsOutputs x
              then r0(OutputsFieldName \<mapsto> JObject [(Auxiliary.Name x, object)])
              else r0(OutputFieldName \<mapsto> object))"
        obtain e1 q1 where c1: "td_rangeAssists c e td cli ns cl xs (u r) = (e1, q1)"
          by (cases "td_rangeAssists c e td cli ns cl xs (u r)")
        obtain e2 q2 where c2: "td_rangeAssists c e td cli ns cl xs (u r') = (e2, q2)"
          by (cases "td_rangeAssists c e td cli ns cl xs (u r')")
        from Cons c1 c2 have "e1 = e2 \<and> isl q1 = isl q2"
          by (metis fst_conv snd_conv)
        with False Inr g obj c1 [unfolded u_def] c2 [unfolded u_def] show ?thesis by simp
      qed
    qed
  qed
qed

lemma wd_rangeAssists_root_other:
  "wd_rangeAssists c e cli ns cl xs root = (evs, Inr root') \<Longrightarrow> k \<noteq> OutputsFieldName \<Longrightarrow>
     root' k = root k"
proof (induction xs arbitrary: root evs)
  case Nil
  then show ?case by simp
next
  case (Cons x xs)
  show ?case
  proof (cases "Type x \<noteq> AuxiliaryWorkload")
    case True
    with Cons show ?thesis by simp
  next
    case False
    with Cons.prems(1) have
      "\<exists>o1 evs1. wd_rangeAssists c e cli ns cl xs
         (root(OutputsFieldName \<mapsto> JObject [(Auxiliary.Name x, o1)])) = (evs1, Inr root')"
      by (auto split: if_splits sum.splits prod.splits)
    then obtain o1 evs1 where "wd_rangeAssists c e cli ns cl xs
         (root(OutputsFieldName \<mapsto> JObject [(Auxiliary.Name x, o1)])) = (evs1, Inr root')"
      by blast
    from Cons.IH [OF this Cons.prems(2)] Cons.prems(2) show ?thesis by simp
  qed
qed

lemma td_rangeAssists_root_other:
  "td_rangeAssists c e td cli ns cl xs root = (evs, Inr root') \<Longrightarrow>
   k \<noteq> OutputFieldName \<Longrightarrow> k \<noteq> OutputsFieldName \<Longrightarrow> root' k = root k"
proof (induction xs arbitrary: root evs)
  case Nil
  then show ?case by simp
next
  case (Cons x xs)
  show ?case
  proof (cases "Type x \<noteq> name td")
    case True
    with Cons show ?thesis by simp
  next
    case False
    with Cons.prems(1) have
      "\<exists>r1 evs1. td_rangeAssists c e td cli ns cl xs r1 = (evs1, Inr root') \<and> r1 k = root k"
      using Cons.prems(2,3)
      by (auto split: if_splits sum.splits prod.splits)
    then obtain r1 evs1 where "td_rangeAssists c e td cli ns cl xs r1 = (evs1, Inr root')"
      and "r1 k = root k"
      by blast
    with Cons.IH [OF this(1) Cons.prems(2,3)] show ?thesis by simp
  qed
qed

lemma wd_getTemplateContext_root_label:
  assumes "wd_getTemplateContext c e wd ctx cli ns = (evs, Inr root)"
    and "distinct (map fst (BaseContextLabels ctx))" and "(k, v) \<in> set (BaseContextLabels ctx)"
    and "k \<noteq> OutputFieldName" and "k \<noteq> OutputsFieldName"
  shows "root k = Some (JString v)"
proof -
  obtain r0 cl where lab:
    "rangeBaseContextLabels c (BaseContextLabels ctx) (Map.empty, Map.empty) = (r0, cl)"
    by (cases "rangeBaseContextLabels c (BaseContextLabels ctx) (Map.empty, Map.empty)")
  from rangeBaseContextLabels_root [OF assms(2,3), of c Map.empty Map.empty] lab
  have r0: "r0 k = Some (JString v)" by simp
  from assms(1) lab have "\<exists>object evs1. wd_rangeAssists c e cli ns cl (auxiliaries ctx)
      (r0(OutputFieldName \<mapsto> object)) = (evs1, Inr root)"
    by (auto simp: wd_getTemplateContext_def Output_def
        split: option.splits sum.splits prod.splits)
  then obtain object evs1 where "wd_rangeAssists c e cli ns cl (auxiliaries ctx)
      (r0(OutputFieldName \<mapsto> object)) = (evs1, Inr root)"
    by blast
  from wd_rangeAssists_root_other [OF this assms(5)] r0 assms(4) show ?thesis by simp
qed

lemma td_getTemplateContext_root_label:
  assumes "td_getTemplateContext c e td ctx cli ns = (evs, Inr root)"
    and "distinct (map fst (BaseContextLabels ctx))" and "(k, v) \<in> set (BaseContextLabels ctx)"
    and "k \<noteq> OutputFieldName" and "k \<noteq> OutputsFieldName"
  shows "root k = Some (JString v)"
proof -
  obtain r0 cl where lab:
    "rangeBaseContextLabels c (BaseContextLabels ctx) (Map.empty, Map.empty) = (r0, cl)"
    by (cases "rangeBaseContextLabels c (BaseContextLabels ctx) (Map.empty, Map.empty)")
  from rangeBaseContextLabels_root [OF assms(2,3), of c Map.empty Map.empty] lab
  have r0: "r0 k = Some (JString v)" by simp
  from assms(1) lab have "td_rangeAssists c e td cli ns cl (auxiliaries ctx) r0 = (evs, Inr root)"
    by (simp add: td_getTemplateContext_def Output_def)
  from td_rangeAssists_root_other [OF this assms(4,5)] r0 show ?thesis by simp
qed

lemma wd_rangeAssists_resolves:
  assumes "\<forall>a\<in>set xs. Type a = AuxiliaryWorkload \<longrightarrow>
      Auxiliary.Name a \<noteq> [] \<and>
      (\<exists>ref la eva oa. Unstructured e (Ins a) = Inr ref \<and>
         getResourceFromObj c ref cli ns
           (MergeMapOverrideWithDst [TraitTypeLabel c \<mapsto> AuxiliaryWorkload] cl)
           (Auxiliary.Name a) = (la, eva, Inr oa))"
  shows "\<exists>root'. wd_rangeAssists c e cli ns cl xs root =
      (concat (map (\<lambda>a. fst (snd (getResourceFromObj c (projr (Unstructured e (Ins a))) cli ns
                 (MergeMapOverrideWithDst [TraitTypeLabel c \<mapsto> AuxiliaryWorkload] cl)
                 (Auxiliary.Name a))))
          (filter (\<lambda>a. Type a = AuxiliaryWorkload) xs)), Inr root')"
  using assms
proof (induction xs arbitrary: root)
  case Nil
  then show ?case by simp
next
  case (Cons x xs)
  from Cons.prems have rest: "\<forall>a\<in>set xs. Type a = AuxiliaryWorkload \<longrightarrow>
      Auxiliary.Name a \<noteq> [] \<and>
      (\<exists>ref la eva oa. Unstructured e (Ins a) = Inr ref \<and>
         getResourceFromObj c ref cli ns
           (MergeMapOverrideWithDst [TraitTypeLabel c \<mapsto> AuxiliaryWorkload] cl)
           (Auxiliary.Name a) = (la, eva, Inr oa))"
    by (simp add: fun_upd_def)
  show ?case
  proof (cases "Type x = AuxiliaryWorkload")
    case False
    with Cons.IH [OF rest, of root] show ?thesis by (simp add: fun_upd_def)
  next
    case True
    with Cons.prems obtain ref la eva oa where n: "Auxiliary.Name x \<noteq> []"
      and u: "Unstructured e (Ins x) = Inr ref"
      and g: "getResourceFromObj c ref cli ns
           (MergeMapOverrideWithDst [TraitTypeLabel c \<mapsto> AuxiliaryWorkload] cl)
           (Auxiliary.Name x) = (la, eva, Inr oa)"
      by (auto simp: fun_upd_def)
    from Cons.IH [OF rest] obtain root' where
      "wd_rangeAssists c e cli ns cl xs
         (root(OutputsFieldName \<mapsto> JObject [(Auxiliary.Name x, oa)])) =
       (concat (map (\<lambda>a. fst (snd (getResourceFromObj c (projr (Unstructured e (Ins a))) cli ns
                 (MergeMapOverrideWithDst [TraitTypeLabel c \<mapsto> AuxiliaryWorkload] cl)
                 (Auxiliary.Name a))))
          (filter (\<lambda>a. Type a = AuxiliaryWorkload) xs)), Inr root')"
      by blast
    with True n u g show ?thesis by (simp add: fun_upd_def)
  qed
qed

lemma td_rangeAssists_resolves:
  assumes "\<forall>a\<in>set xs. Type a = name td \<longrightarrow>
      (\<exists>ref la eva oa. Unstructured e (Ins a) = Inr ref \<and>
         getResourceFromObj c ref cli ns
           (MergeMapOverrideWithDst [TraitTypeLabel c \<mapsto> name td] cl)
           (Auxiliary.Name a) = (la, eva, Inr oa))"
  shows "\<exists>root'. td_rangeAssists c e td cli ns cl xs root =
      (concat (map (\<lambda>a. fst (snd (getResourceFromObj c (projr (Unstructured e (Ins a))) cli ns
                 (MergeMapOverrideWithDst [TraitTypeLabel c \<mapsto> name td] cl)
                 (Auxiliary.Name a))))
          (filter (\<lambda>a. Type a = name td) xs)), Inr root')"
  using assms
proof (induction xs arbitrary: root)
  case Nil
  then show ?case by simp
next
  case (Cons x xs)
  from Cons.prems have rest: "\<forall>a\<in>set xs. Type a = name td \<longrightarrow>
      (\<exists>ref la eva oa. Unstructured e (Ins a) = Inr ref \<and>
         getResourceFromObj c ref cli ns
           (MergeMapOverrideWithDst [TraitTypeLabel c \<mapsto> name td] cl)
           (Auxiliary.Name a) = (la, eva, Inr oa))"
    by (simp add: fun_upd_def)
  show ?case
  proof (cases "Type x = name td")
    case False
    with Cons.IH [OF rest, of root] show ?thesis by (simp add: fun_upd_def)
  next
    case True
    with Cons.prems obtain ref la eva oa where
      u: "Unstructured e (Ins x) = Inr ref"
      and g: "getResourceFromObj c ref cli ns
           (MergeMapOverrideWithDst [TraitTypeLabel c \<mapsto> name td] cl)
           (Auxiliary.Name x) = (la, eva, Inr oa)"
      by (auto simp: fun_upd_def)
    define r1 where "r1 = (if IsOutputs x
         then root(OutputsFieldName \<mapsto> JObject [(Auxiliary.Name x, oa)])
         else root(OutputFieldName \<mapsto> oa))"
    from Cons.IH [OF rest] obtain root' where
      "td_rangeAssists c e td cli ns cl xs r1 =
       (concat (map (\<lambda>a. fst (snd (getResourceFromObj c (projr (Unstructured e (Ins a))) cli ns
                 (MergeMapOverrideWithDst [TraitTypeLabel c \<mapsto> name td] cl)
                 (Auxiliary.Name a))))
          (filter (\<lambda>a. Type a = name td) xs)), Inr root')"
      by blast
    with True u g show ?thesis by (simp add: r1_def fun_upd_def)
  qed
qed

lemma wd_getTemplateContext_resolves:
  assumes d: "distinct (map fst (BaseContextLabels ctx))"
    and b: "base ctx = Some b" and cw: "Unstructured e b = Inr cw"
    and g: "getResourceFromObj c cw cli ns
        (MergeMapOverrideWithDst [LabelOAMResourceType c \<mapsto> ResourceTypeWorkload c]
           (snd (rangeBaseContextLabels c (BaseContextLabels ctx) (Map.empty, Map.empty)))) [] =
        (l0, ev0, Inr object)"
    and as: "\<forall>a\<in>set (auxiliaries ctx). Type a = AuxiliaryWorkload \<longrightarrow>
      Auxiliary.Name a \<noteq> [] \<and>
      (\<exists>ref la eva oa. Unstructured e (Ins a) = Inr ref \<and>
         getResourceFromObj c ref cli ns
           (MergeMapOverrideWithDst [TraitTypeLabel c \<mapsto> AuxiliaryWorkload]
              (snd (rangeBaseContextLabels c (BaseContextLabels ctx) (Map.empty, Map.empty))))
           (Auxiliary.Name a) = (la, eva, Inr oa))"
  shows "\<exists>root. wd_getTemplateContext c e wd ctx cli ns =
      (ev0 @ concat (map (\<lambda>a. fst (snd (getResourceFromObj c (projr (Unstructured e (Ins a)))
                 cli ns
                 (MergeMapOverrideWithDst [TraitTypeLabel c \<mapsto> AuxiliaryWorkload]
                    (snd (rangeBaseContextLabels c (BaseContextLabels ctx)
                       (Map.empty, Map.empty))))
                 (Auxiliary.Name a))))
          (filter (\<lambda>a. Type a = AuxiliaryWorkload) (auxiliaries ctx))), Inr root) \<and>
      root OutputFieldName = Some object \<and>
      (\<forall>(k, v)\<in>set (BaseContextLabels ctx).
         k \<noteq> OutputFieldName \<and> k \<noteq> OutputsFieldName \<longrightarrow> root k = Some (JString v))"
proof -
  obtain r0 cl where lab:
    "rangeBaseContextLabels c (BaseContextLabels ctx) (Map.empty, Map.empty) = (r0, cl)"
    by (cases "rangeBaseContextLabels c (BaseContextLabels ctx) (Map.empty, Map.empty)")
  have cl: "snd (rangeBaseContextLabels c (BaseContextLabels ctx) (Map.empty, Map.empty)) = cl"
    using lab by simp
  from wd_rangeAssists_resolves [OF as [unfolded cl], of "r0(OutputFieldName \<mapsto> object)"]
  obtain root where loop: "wd_rangeAssists c e cli ns cl (auxiliaries ctx)
      (r0(OutputFieldName \<mapsto> object)) =
      (concat (map (\<lambda>a. fst (snd (getResourceFromObj c (projr (Unstructured e (Ins a))) cli ns
                 (MergeMapOverrideWithDst [TraitTypeLabel c \<mapsto> AuxiliaryWorkload] cl)
                 (Auxiliary.Name a))))
          (filter (\<lambda>a. Type a = AuxiliaryWorkload) (auxiliaries ctx))), Inr root)"
    by blast
  have res: "wd_getTemplateContext c e wd ctx cli ns =
      (ev0 @ concat (map (\<lambda>a. fst (snd (getResourceFromObj c (projr (Unstructured e (Ins a)))
                 cli ns
                 (MergeMapOverrideWithDst [TraitTypeLabel c \<mapsto> AuxiliaryWorkload] cl)
                 (Auxiliary.Name a))))
          (filter (\<lambda>a. Type a = AuxiliaryWorkload) (auxiliaries ctx))), Inr root)"
    using lab b cw g [unfolded cl] loop
    by (simp add: wd_getTemplateContext_def Output_def)
  have out: "root OutputFieldName = Some object"
    using wd_rangeAssists_root_other [OF loop, of OutputFieldName]
    by (simp add: OutputFieldName_def OutputsFieldName_def)
  have "root k = Some (JString v)"
    if "(k, v) \<in> set (BaseContextLabels ctx)" "k \<noteq> OutputFieldName" "k \<noteq> OutputsFieldName"
    for k v
    using wd_getTemplateContext_root_label [OF res d that] .
  with res out show ?thesis unfolding cl by blast
qed

lemma td_getTemplateContext_resolves:
  assumes d: "distinct (map fst (BaseContextLabels ctx))"
    and as: "\<forall>a\<in>set (auxiliaries ctx). Type a = name td \<longrightarrow>
      (\<exists>ref la eva oa. Unstructured e (Ins a) = Inr ref \<and>
         getResourceFromObj c ref cli ns
           (MergeMapOverrideWithDst [TraitTypeLabel c \<mapsto> name td]
              (snd (rangeBaseContextLabels c (BaseContextLabels ctx) (Map.empty, Map.empty))))
           (Auxiliary.Name a) = (la, eva, Inr oa))"
  shows "\<exists>root. td_getTemplateContext c e td ctx cli ns =
      (concat (map (\<lambda>a. fst (snd (getResourceFromObj c (projr (Unstructured e (Ins a)))
                 cli ns
                 (MergeMapOverrideWithDst [TraitTypeLabel c \<mapsto> name td]
                    (snd (rangeBaseContextLabels c (BaseContextLabels ctx)
                       (Map.empty, Map.empty))))
                 (Auxiliary.Name a))))
          (filter (\<lambda>a. Type a = name td) (auxiliaries ctx))), Inr root) \<and>
      (\<forall>(k, v)\<in>set (BaseContextLabels ctx).
         k \<noteq> OutputFieldName \<and> k \<noteq> OutputsFieldName \<longrightarrow> root k = Some (JString v))"
proof -
  obtain r0 cl where lab:
    "rangeBaseContextLabels c (BaseContextLabels ctx) (Map.empty, Map.empty) = (r0, cl)"
    by (cases "rangeBaseContextLabels c (BaseContextLabels ctx) (Map.empty, Map.empty)")
  have cl: "snd (rangeBaseContextLabels c (BaseContextLabels ctx) (Map.empty, Map.empty)) = cl"
    using lab by simp
  from td_rangeAssists_resolves [OF as [unfolded cl], of r0]
  obtain root where loop: "td_rangeAssists c e td cli ns cl (auxiliaries ctx) r0 =
      (concat (map (\<lambda>a. fst (snd (getResourceFromObj c (projr (Unstructured e (Ins a))) cli ns
                 (MergeMapOverrideWithDst [TraitTypeLabel c \<mapsto> name td] cl)
                 (Auxiliary.Name a))))
          (filter (\<lambda>a. Type a = name td) (auxiliaries ctx))), Inr root)"
    by blast
  have res: "td_getTemplateContext c e td ctx cli ns =
      (concat (map (\<lambda>a. fst (snd (getResourceFromObj c (projr (Unstructured e (Ins a)))
                 cli ns
                 (MergeMapOverrideWithDst [TraitTypeLabel c \<mapsto> name td] cl)
                 (Auxiliary.Name a))))
          (filter (\<lambda>a. Type a = name td) (auxiliaries ctx))), Inr root)"
    using lab loop by (simp add: td_getTemplateContext_def Output_def)
  have "root k = Some (JString v)"
    if "(k, v) \<in> set (BaseContextLabels ctx)" "k \<noteq> OutputFieldName" "k \<noteq> OutputsFieldName"
    for k v
    using td_getTemplateContext_root_label [OF res d that] .
  with res show ?thesis unfolding cl by blast
qed

text \<open>
  Claim C8. The loop over the base-context labels copies every entry into the root
  context as a string. Each builder, when the Base (for the workload) and the
  auxiliaries of its type resolve, succeeds; its reads are those of the resolver with
  the type label merged with \<open>commonLabels\<close>, and the root context it returns holds
  every base-context label as a string (the keys \<open>output\<close> and \<open>outputs\<close>, which the
  builders assign afterwards, apart), as does the root context of any successful call.
  \<open>commonLabels\<close> binds the app-name label to the value of \<open>appName\<close>, the component
  label to the value of \<open>name\<close>, and nothing else; and the cluster reads of both
  builders, with the label sets they pass, are those of the context in which every
  other base-context key is removed.
\<close>

theorem base_context_labels:
  "(distinct (map fst kvs) \<and> (k, v) \<in> set kvs
    \<longrightarrow> fst (rangeBaseContextLabels c kvs (Map.empty, Map.empty)) k = Some (JString v)) \<and>
   (distinct (map fst (BaseContextLabels ctx)) \<and> base ctx = Some b \<and>
    Unstructured e b = Inr cw \<and>
    getResourceFromObj c cw cli ns
      (MergeMapOverrideWithDst [LabelOAMResourceType c \<mapsto> ResourceTypeWorkload c]
         (snd (rangeBaseContextLabels c (BaseContextLabels ctx) (Map.empty, Map.empty)))) [] =
      (l0, ev0, Inr object) \<and>
    (\<forall>a\<in>set (auxiliaries ctx). Type a = AuxiliaryWorkload \<longrightarrow>
      Auxiliary.Name a \<noteq> [] \<and>
      (\<exists>ref la eva oa. Unstructured e (Ins a) = Inr ref \<and>
         getResourceFromObj c ref cli ns
           (MergeMapOverrideWithDst [TraitTypeLabel c \<mapsto> AuxiliaryWorkload]
              (snd (rangeBaseContextLabels c (BaseContextLabels ctx) (Map.empty, Map.empty))))
           (Auxiliary.Name a) = (la, eva, Inr oa)))
    \<longrightarrow> (\<exists>root. wd_getTemplateContext c e wd ctx cli ns =
      (ev0 @ concat (map (\<lambda>a. fst (snd (getResourceFromObj c (projr (Unstructured e (Ins a)))
                 cli ns
                 (MergeMapOverrideWithDst [TraitTypeLabel c \<mapsto> AuxiliaryWorkload]
                    (snd (rangeBaseContextLabels c (BaseContextLabels ctx)
                       (Map.empty, Map.empty))))
                 (Auxiliary.Name a))))
          (filter (\<lambda>a. Type a = AuxiliaryWorkload) (auxiliaries ctx))), Inr root) \<and>
      root OutputFieldName = Some object \<and>
      (\<forall>(k, v)\<in>set (BaseContextLabels ctx).
         k \<noteq> OutputFieldName \<and> k \<noteq> OutputsFieldName \<longrightarrow> root k = Some (JString v)))) \<and>
   (distinct (map fst (BaseContextLabels ctx)) \<and>
    (\<forall>a\<in>set (auxiliaries ctx). Type a = name td \<longrightarrow>
      (\<exists>ref la eva oa. Unstructured e (Ins a) = Inr ref \<and>
         getResourceFromObj c ref cli ns
           (MergeMapOverrideWithDst [TraitTypeLabel c \<mapsto> name td]
              (snd (rangeBaseContextLabels c (BaseContextLabels ctx) (Map.empty, Map.empty))))
           (Auxiliary.Name a) = (la, eva, Inr oa)))
    \<longrightarrow> (\<exists>root. td_getTemplateContext c e td ctx cli ns =
      (concat (map (\<lambda>a. fst (snd (getResourceFromObj c (projr (Unstructured e (Ins a)))
                 cli ns
                 (MergeMapOverrideWithDst [TraitTypeLabel c \<mapsto> name td]
                    (snd (rangeBaseContextLabels c (BaseContextLabels ctx)
                       (Map.empty, Map.empty))))
                 (Auxiliary.Name a))))
          (filter (\<lambda>a. Type a = name td) (auxiliaries ctx))), Inr root) \<and>
      (\<forall>(k, v)\<in>set (BaseContextLabels ctx).
         k \<noteq> OutputFieldName \<and> k \<noteq> OutputsFieldName \<longrightarrow> root k = Some (JString v)))) \<and>
   (wd_getTemplateContext c e wd ctx cli ns = (evs, Inr root) \<and>
    distinct (map fst (BaseContextLabels ctx)) \<and> (k, v) \<in> set (BaseContextLabels ctx) \<and>
    k \<noteq> OutputFieldName \<and> k \<noteq> OutputsFieldName
    \<longrightarrow> root k = Some (JString v)) \<and>
   (td_getTemplateContext c e td ctx cli ns = (evs, Inr root) \<and>
    distinct (map fst (BaseContextLabels ctx)) \<and> (k, v) \<in> set (BaseContextLabels ctx) \<and>
    k \<noteq> OutputFieldName \<and> k \<noteq> OutputsFieldName
    \<longrightarrow> root k = Some (JString v)) \<and>
   (distinct (map fst kvs) \<and> LabelAppName c \<noteq> LabelAppComponent c
    \<longrightarrow> snd (rangeBaseContextLabels c kvs (Map.empty, Map.empty)) =
          (\<lambda>l. if l = LabelAppName c then map_of kvs ''appName''
               else if l = LabelAppComponent c then map_of kvs ''name'' else None)) \<and>
   fst (wd_getTemplateContext c e wd ctx cli ns) =
     fst (wd_getTemplateContext c e wd
       (ctx\<lparr>BaseContextLabels :=
          filter (\<lambda>(k, v). k = ''appName'' \<or> k = ''name'') (BaseContextLabels ctx)\<rparr>) cli ns) \<and>
   fst (td_getTemplateContext c e td ctx cli ns) =
     fst (td_getTemplateContext c e td
       (ctx\<lparr>BaseContextLabels :=
          filter (\<lambda>(k, v). k = ''appName'' \<or> k = ''name'') (BaseContextLabels ctx)\<rparr>) cli ns)"
proof (intro conjI impI; (elim conjE)?)
  assume "distinct (map fst kvs)" "(k, v) \<in> set kvs"
  then show "fst (rangeBaseContextLabels c kvs (Map.empty, Map.empty)) k = Some (JString v)"
    by (rule rangeBaseContextLabels_root)
next
  assume "distinct (map fst (BaseContextLabels ctx))" "base ctx = Some b"
    "Unstructured e b = Inr cw"
    "getResourceFromObj c cw cli ns
      (MergeMapOverrideWithDst [LabelOAMResourceType c \<mapsto> ResourceTypeWorkload c]
         (snd (rangeBaseContextLabels c (BaseContextLabels ctx) (Map.empty, Map.empty)))) [] =
      (l0, ev0, Inr object)"
    "\<forall>a\<in>set (auxiliaries ctx). Type a = AuxiliaryWorkload \<longrightarrow>
      Auxiliary.Name a \<noteq> [] \<and>
      (\<exists>ref la eva oa. Unstructured e (Ins a) = Inr ref \<and>
         getResourceFromObj c ref cli ns
           (MergeMapOverrideWithDst [TraitTypeLabel c \<mapsto> AuxiliaryWorkload]
              (snd (rangeBaseContextLabels c (BaseContextLabels ctx) (Map.empty, Map.empty))))
           (Auxiliary.Name a) = (la, eva, Inr oa))"
  then show "\<exists>root. wd_getTemplateContext c e wd ctx cli ns =
      (ev0 @ concat (map (\<lambda>a. fst (snd (getResourceFromObj c (projr (Unstructured e (Ins a)))
                 cli ns
                 (MergeMapOverrideWithDst [TraitTypeLabel c \<mapsto> AuxiliaryWorkload]
                    (snd (rangeBaseContextLabels c (BaseContextLabels ctx)
                       (Map.empty, Map.empty))))
                 (Auxiliary.Name a))))
          (filter (\<lambda>a. Type a = AuxiliaryWorkload) (auxiliaries ctx))), Inr root) \<and>
      root OutputFieldName = Some object \<and>
      (\<forall>(k, v)\<in>set (BaseContextLabels ctx).
         k \<noteq> OutputFieldName \<and> k \<noteq> OutputsFieldName \<longrightarrow> root k = Some (JString v))"
    by (rule wd_getTemplateContext_resolves)
next
  assume "distinct (map fst (BaseContextLabels ctx))"
    "\<forall>a\<in>set (auxiliaries ctx). Type a = name td \<longrightarrow>
      (\<exists>ref la eva oa. Unstructured e (Ins a) = Inr ref \<and>
         getResourceFromObj c ref cli ns
           (MergeMapOverrideWithDst [TraitTypeLabel c \<mapsto> name td]
              (snd (rangeBaseContextLabels c (BaseContextLabels ctx) (Map.empty, Map.empty))))
           (Auxiliary.Name a) = (la, eva, Inr oa))"
  then show "\<exists>root. td_getTemplateContext c e td ctx cli ns =
      (concat (map (\<lambda>a. fst (snd (getResourceFromObj c (projr (Unstructured e (Ins a)))
                 cli ns
                 (MergeMapOverrideWithDst [TraitTypeLabel c \<mapsto> name td]
                    (snd (rangeBaseContextLabels c (BaseContextLabels ctx)
                       (Map.empty, Map.empty))))
                 (Auxiliary.Name a))))
          (filter (\<lambda>a. Type a = name td) (auxiliaries ctx))), Inr root) \<and>
      (\<forall>(k, v)\<in>set (BaseContextLabels ctx).
         k \<noteq> OutputFieldName \<and> k \<noteq> OutputsFieldName \<longrightarrow> root k = Some (JString v))"
    by (rule td_getTemplateContext_resolves)
next
  assume "wd_getTemplateContext c e wd ctx cli ns = (evs, Inr root)"
    "distinct (map fst (BaseContextLabels ctx))" "(k, v) \<in> set (BaseContextLabels ctx)"
    "k \<noteq> OutputFieldName" "k \<noteq> OutputsFieldName"
  then show "root k = Some (JString v)"
    by (rule wd_getTemplateContext_root_label)
next
  assume "td_getTemplateContext c e td ctx cli ns = (evs, Inr root)"
    "distinct (map fst (BaseContextLabels ctx))" "(k, v) \<in> set (BaseContextLabels ctx)"
    "k \<noteq> OutputFieldName" "k \<noteq> OutputsFieldName"
  then show "root k = Some (JString v)"
    by (rule td_getTemplateContext_root_label)
next
  assume d: "distinct (map fst kvs)" and n: "LabelAppName c \<noteq> LabelAppComponent c"
  from rangeBaseContextLabels_common [OF d n, of Map.empty Map.empty] n
  show "snd (rangeBaseContextLabels c kvs (Map.empty, Map.empty)) =
          (\<lambda>l. if l = LabelAppName c then map_of kvs ''appName''
               else if l = LabelAppComponent c then map_of kvs ''name'' else None)"
    by (auto simp: fun_eq_iff)
next
  obtain r1 cl1 where l1:
    "rangeBaseContextLabels c (BaseContextLabels ctx) (Map.empty, Map.empty) = (r1, cl1)"
    by (cases "rangeBaseContextLabels c (BaseContextLabels ctx) (Map.empty, Map.empty)")
  obtain r2 cl2 where l2:
    "rangeBaseContextLabels c
       (filter (\<lambda>(k, v). k = ''appName'' \<or> k = ''name'') (BaseContextLabels ctx))
       (Map.empty, Map.empty) = (r2, cl2)"
    by (cases "rangeBaseContextLabels c
       (filter (\<lambda>(k, v). k = ''appName'' \<or> k = ''name'') (BaseContextLabels ctx))
       (Map.empty, Map.empty)")
  from rangeBaseContextLabels_filter [of c "BaseContextLabels ctx" Map.empty Map.empty Map.empty]
    l1 l2 have cl: "cl2 = cl1" by simp
  show "fst (wd_getTemplateContext c e wd ctx cli ns) =
     fst (wd_getTemplateContext c e wd
       (ctx\<lparr>BaseContextLabels :=
          filter (\<lambda>(k, v). k = ''appName'' \<or> k = ''name'') (BaseContextLabels ctx)\<rparr>) cli ns)"
    using wd_rangeAssists_reads [of c e cli ns cl1 "auxiliaries ctx"]
    by (auto simp: wd_getTemplateContext_def Output_def l1 l2 cl
        split: option.splits sum.splits prod.splits) (metis fst_conv)+
  show "fst (td_getTemplateContext c e td ctx cli ns) =
     fst (td_getTemplateContext c e td
       (ctx\<lparr>BaseContextLabels :=
          filter (\<lambda>(k, v). k = ''appName'' \<or> k = ''name'') (BaseContextLabels ctx)\<rparr>) cli ns)"
    using td_rangeAssists_reads [of c e td cli ns cl1 "auxiliaries ctx" r1 r2]
    by (simp add: td_getTemplateContext_def Output_def l1 l2 cl)
qed

text \<open>
  The key \<open>zone\<close> reaches the root context of both builders and neither label set they
  list with.
\<close>

theorem base_context_labels_witness:
  "fst (rangeBaseContextLabels oam0 [(''appName'', ''shop''), (''name'', ''web''), (''zone'', ''eu'')]
      (Map.empty, Map.empty)) ''zone'' = Some (JString ''eu'') \<and>
   snd (rangeBaseContextLabels oam0 [(''appName'', ''shop''), (''name'', ''web''), (''zone'', ''eu'')]
      (Map.empty, Map.empty)) =
     [''app.oam.dev/name'' \<mapsto> ''shop'', ''app.oam.dev/component'' \<mapsto> ''web''] \<and>
   fst (wd_getTemplateContext oam0 (engine0 (instance0 [])) (def0 ''webservice'') (context3 [])
      cluster1 ''default'') =
     [ClusterList gvkService ''default''
        [''app.oam.dev/resourceType'' \<mapsto> ''WORKLOAD'', ''app.oam.dev/name'' \<mapsto> ''shop'',
         ''app.oam.dev/component'' \<mapsto> ''web'']] \<and>
   \<not> isl (snd (wd_getTemplateContext oam0 (engine0 (instance0 [])) (def0 ''webservice'')
      (context3 []) cluster1 ''default'')) \<and>
   projr (snd (wd_getTemplateContext oam0 (engine0 (instance0 [])) (def0 ''webservice'')
      (context3 []) cluster1 ''default'')) ''zone'' = Some (JString ''eu'') \<and>
   fst (td_getTemplateContext oam0 (engine0 (instance0 [])) (def0 ''expose'')
      (context3 [\<lparr>Ins = Instance (VString []), Type = ''expose'', Name = ''a'',
                  IsOutputs = True\<rparr>]) cluster1 ''default'') =
     [ClusterList gvkService ''default''
        [''trait.oam.dev/type'' \<mapsto> ''expose'', ''app.oam.dev/name'' \<mapsto> ''shop'',
         ''app.oam.dev/component'' \<mapsto> ''web'', ''trait.oam.dev/resource'' \<mapsto> ''a'']] \<and>
   \<not> isl (snd (td_getTemplateContext oam0 (engine0 (instance0 [])) (def0 ''expose'')
      (context3 [\<lparr>Ins = Instance (VString []), Type = ''expose'', Name = ''a'',
                  IsOutputs = True\<rparr>]) cluster1 ''default'')) \<and>
   projr (snd (td_getTemplateContext oam0 (engine0 (instance0 [])) (def0 ''expose'')
      (context3 [\<lparr>Ins = Instance (VString []), Type = ''expose'', Name = ''a'',
                  IsOutputs = True\<rparr>]) cluster1 ''default'')) ''zone'' = Some (JString ''eu'')"
proof -
  let ?kvs = "[(''appName'', ''shop''), (''name'', ''web''), (''zone'', ''eu'')]"
  let ?e = "engine0 (instance0 [])"
  let ?x = "\<lparr>Ins = Instance (VString []), Type = ''expose'', Name = ''a'', IsOutputs = True\<rparr>"
  let ?W = "wd_getTemplateContext oam0 ?e (def0 ''webservice'') (context3 []) cluster1 ''default''"
  let ?T = "td_getTemplateContext oam0 ?e (def0 ''expose'') (context3 [?x]) cluster1 ''default''"
  let ?cl = "\<lambda>as. snd (rangeBaseContextLabels oam0 (BaseContextLabels (context3 as))
      (Map.empty, Map.empty))"
  let ?lw = "MergeMapOverrideWithDst [LabelOAMResourceType oam0 \<mapsto> ResourceTypeWorkload oam0]
      (?cl [])"
  let ?lt = "(MergeMapOverrideWithDst [TraitTypeLabel oam0 \<mapsto> name (def0 ''expose'')]
      (?cl [?x]))(TraitResource oam0 \<mapsto> ''a'')"
  have h1: "distinct (map fst ?kvs) \<and> (''zone'', ''eu'') \<in> set ?kvs" by simp
  have h6: "distinct (map fst ?kvs) \<and> LabelAppName oam0 \<noteq> LabelAppComponent oam0"
    by (simp add: oam0_def)
  have gw: "getResourceFromObj oam0 (rendered []) cluster1 ''default'' ?lw [] =
      (?lw, [ClusterList gvkService ''default'' ?lw], Inr (JObject [(''id'', JString ''web'')]))"
    by (simp add: getResourceFromObj_def Let_def cluster1_def cluster_def liveObject_def
        rendered_def)
  have h2: "distinct (map fst (BaseContextLabels (context3 []))) \<and>
      base (context3 []) = Some (Instance (VString [])) \<and>
      Unstructured ?e (Instance (VString [])) = Inr (rendered []) \<and>
      getResourceFromObj oam0 (rendered []) cluster1 ''default'' ?lw [] =
        (?lw, [ClusterList gvkService ''default'' ?lw],
         Inr (JObject [(''id'', JString ''web'')])) \<and>
      (\<forall>a\<in>set (auxiliaries (context3 [])). Type a = AuxiliaryWorkload \<longrightarrow>
        Auxiliary.Name a \<noteq> [] \<and>
        (\<exists>ref la eva oa. Unstructured ?e (Ins a) = Inr ref \<and>
           getResourceFromObj oam0 ref cluster1 ''default''
             (MergeMapOverrideWithDst [TraitTypeLabel oam0 \<mapsto> AuxiliaryWorkload] (?cl []))
             (Auxiliary.Name a) = (la, eva, Inr oa)))"
    using gw by (simp add: context3_def engine0_def)
  have gt: "getResourceFromObj oam0 (rendered []) cluster1 ''default''
      (MergeMapOverrideWithDst [TraitTypeLabel oam0 \<mapsto> name (def0 ''expose'')] (?cl [?x])) ''a'' =
      (?lt, [ClusterList gvkService ''default'' ?lt], Inr (JObject [(''id'', JString ''web'')]))"
    by (simp add: getResourceFromObj_def Let_def cluster1_def cluster_def liveObject_def
        rendered_def)
  have h3: "distinct (map fst (BaseContextLabels (context3 [?x]))) \<and>
      (\<forall>a\<in>set (auxiliaries (context3 [?x])). Type a = name (def0 ''expose'') \<longrightarrow>
        (\<exists>ref la eva oa. Unstructured ?e (Ins a) = Inr ref \<and>
           getResourceFromObj oam0 ref cluster1 ''default''
             (MergeMapOverrideWithDst [TraitTypeLabel oam0 \<mapsto> name (def0 ''expose'')]
                (?cl [?x]))
             (Auxiliary.Name a) = (la, eva, Inr oa)))"
    using gt by (simp add: context3_def engine0_def def0_def)
  note c1 = base_context_labels [THEN conjunct1, rule_format, OF h1]
  note c2 = base_context_labels [THEN conjunct2, THEN conjunct1, rule_format, OF h2]
  note c3 = base_context_labels [THEN conjunct2, THEN conjunct2, THEN conjunct1, rule_format,
      OF h3]
  note c6 = base_context_labels [THEN conjunct2, THEN conjunct2, THEN conjunct2, THEN conjunct2,
      THEN conjunct2, THEN conjunct1, rule_format, OF h6]
  have r6: "snd (rangeBaseContextLabels oam0 ?kvs (Map.empty, Map.empty)) =
     [''app.oam.dev/name'' \<mapsto> ''shop'', ''app.oam.dev/component'' \<mapsto> ''web'']"
    unfolding c6 by (auto simp: fun_eq_iff oam0_def)
  have lw: "?lw = [''app.oam.dev/resourceType'' \<mapsto> ''WORKLOAD'', ''app.oam.dev/name'' \<mapsto> ''shop'',
         ''app.oam.dev/component'' \<mapsto> ''web'']"
    by (simp add: context3_def oam0_def MergeMapOverrideWithDst_def)
  have lt: "?lt = [''trait.oam.dev/type'' \<mapsto> ''expose'', ''app.oam.dev/name'' \<mapsto> ''shop'',
         ''app.oam.dev/component'' \<mapsto> ''web'', ''trait.oam.dev/resource'' \<mapsto> ''a'']"
    by (simp add: context3_def oam0_def def0_def MergeMapOverrideWithDst_def)
  from c2 obtain rw where w: "?W = ([ClusterList gvkService ''default'' ?lw] @ [], Inr rw)"
    and wz: "\<forall>(k, v)\<in>set (BaseContextLabels (context3 [])).
         k \<noteq> OutputFieldName \<and> k \<noteq> OutputsFieldName \<longrightarrow> rw k = Some (JString v)"
    by (auto simp: context3_def)
  from c3 gt obtain rt where t: "?T = ([ClusterList gvkService ''default'' ?lt], Inr rt)"
    and tz: "\<forall>(k, v)\<in>set (BaseContextLabels (context3 [?x])).
         k \<noteq> OutputFieldName \<and> k \<noteq> OutputsFieldName \<longrightarrow> rt k = Some (JString v)"
    by (auto simp: context3_def engine0_def def0_def)
  have w1: "fst ?W = [ClusterList gvkService ''default''
        [''app.oam.dev/resourceType'' \<mapsto> ''WORKLOAD'', ''app.oam.dev/name'' \<mapsto> ''shop'',
         ''app.oam.dev/component'' \<mapsto> ''web'']]"
    unfolding w lw by simp
  have w2: "\<not> isl (snd ?W)" unfolding w by simp
  have w3: "projr (snd ?W) ''zone'' = Some (JString ''eu'')"
    unfolding w using wz by (simp add: context3_def const_defs)
  have t1: "fst ?T = [ClusterList gvkService ''default''
        [''trait.oam.dev/type'' \<mapsto> ''expose'', ''app.oam.dev/name'' \<mapsto> ''shop'',
         ''app.oam.dev/component'' \<mapsto> ''web'', ''trait.oam.dev/resource'' \<mapsto> ''a'']]"
    unfolding t lt by simp
  have t2: "\<not> isl (snd ?T)" unfolding t by simp
  have t3: "projr (snd ?T) ''zone'' = Some (JString ''eu'')"
    unfolding t using tz by (simp add: context3_def const_defs)
  show ?thesis
    by (intro conjI) (rule c1 r6 w1 w2 w3 t1 t2 t3)+
qed

section \<open>Properties of Complete\<close>

lemma wd_rangeFields_all:
  "map (\<lambda>f. NewOther e (Value f))
       (filter (\<lambda>f. \<not> (IsDefinition f \<or> IsHidden f \<or> IsOptional f)) fs) = map Inr others \<Longrightarrow>
   wd_rangeFields e wd fs ctx =
     (ctx\<lparr>auxiliaries := auxiliaries ctx @
        map2 (\<lambda>f other. \<lparr>Ins = other, Type = AuxiliaryWorkload, Name = FieldInfo.Name f,
                           IsOutputs = True\<rparr>)
          (filter (\<lambda>f. \<not> (IsDefinition f \<or> IsHidden f \<or> IsOptional f)) fs) others\<rparr>, None)"
proof (induction fs arbitrary: ctx others)
  case Nil
  then show ?case by simp
next
  case (Cons x fs)
  show ?case
  proof (cases "IsDefinition x \<or> IsHidden x \<or> IsOptional x")
    case True
    with Cons show ?thesis by auto
  next
    case False
    with Cons.prems obtain other rest where others: "others = other # rest"
      and x: "NewOther e (Value x) = Inr other"
      and rest: "map (\<lambda>f. NewOther e (Value f))
        (filter (\<lambda>f. \<not> (IsDefinition f \<or> IsHidden f \<or> IsOptional f)) fs) = map Inr rest"
      by (cases others) auto
    from False x others Cons.IH [OF rest] show ?thesis
      by (simp add: PutAuxiliaries_def)
  qed
qed

lemma wd_rangeFields_fail:
  "filter (\<lambda>f. \<not> (IsDefinition f \<or> IsHidden f \<or> IsOptional f)) fs = pre @ f # post \<Longrightarrow>
   map (\<lambda>f. NewOther e (Value f)) pre = map Inr others \<Longrightarrow>
   NewOther e (Value f) = Inl err \<Longrightarrow>
   wd_rangeFields e wd fs ctx =
     (ctx\<lparr>auxiliaries := auxiliaries ctx @
        map2 (\<lambda>f other. \<lparr>Ins = other, Type = AuxiliaryWorkload, Name = FieldInfo.Name f,
                           IsOutputs = True\<rparr>) pre others\<rparr>,
      Some (WithMessage err
        (''parse WorkloadDefinition '' @ name wd @ '' outputs('' @ FieldInfo.Name f @ '')'')))"
proof (induction fs arbitrary: ctx pre others)
  case Nil
  then show ?case by simp
next
  case (Cons x fs)
  show ?case
  proof (cases "IsDefinition x \<or> IsHidden x \<or> IsOptional x")
    case True
    with Cons show ?thesis by auto
  next
    case False
    show ?thesis
    proof (cases pre)
      case Nil
      with False Cons.prems show ?thesis by simp
    next
      case pre: (Cons p ps)
      with False Cons.prems(1) have px: "p = x"
        and fs: "filter (\<lambda>f. \<not> (IsDefinition f \<or> IsHidden f \<or> IsOptional f)) fs = ps @ f # post"
        by simp_all
      from pre px Cons.prems(2) obtain other rest where others: "others = other # rest"
        and x: "NewOther e (Value x) = Inr other"
        and rest: "map (\<lambda>f. NewOther e (Value f)) ps = map Inr rest"
        by (cases others) auto
      have "pre = x # ps" using pre px by simp
      with False x others Cons.IH [OF fs rest Cons.prems(3)] show ?thesis
        by (simp add: PutAuxiliaries_def)
    qed
  qed
qed

lemma td_rangeFields_all:
  "map (\<lambda>f. NewOther e (Value f))
       (filter (\<lambda>f. \<not> (IsDefinition f \<or> IsHidden f \<or> IsOptional f)) fs) = map Inr others \<Longrightarrow>
   td_rangeFields e td fs ctx =
     (ctx\<lparr>auxiliaries := auxiliaries ctx @
        map2 (\<lambda>f other. \<lparr>Ins = other, Type = name td, Name = FieldInfo.Name f,
                           IsOutputs = True\<rparr>)
          (filter (\<lambda>f. \<not> (IsDefinition f \<or> IsHidden f \<or> IsOptional f)) fs) others\<rparr>, None)"
proof (induction fs arbitrary: ctx others)
  case Nil
  then show ?case by simp
next
  case (Cons x fs)
  show ?case
  proof (cases "IsDefinition x \<or> IsHidden x \<or> IsOptional x")
    case True
    with Cons show ?thesis by auto
  next
    case False
    with Cons.prems obtain other rest where others: "others = other # rest"
      and x: "NewOther e (Value x) = Inr other"
      and rest: "map (\<lambda>f. NewOther e (Value f))
        (filter (\<lambda>f. \<not> (IsDefinition f \<or> IsHidden f \<or> IsOptional f)) fs) = map Inr rest"
      by (cases others) auto
    from False x others Cons.IH [OF rest] show ?thesis
      by (simp add: PutAuxiliaries_def)
  qed
qed

lemma td_rangeFields_fail:
  "filter (\<lambda>f. \<not> (IsDefinition f \<or> IsHidden f \<or> IsOptional f)) fs = pre @ f # post \<Longrightarrow>
   map (\<lambda>f. NewOther e (Value f)) pre = map Inr others \<Longrightarrow>
   NewOther e (Value f) = Inl err \<Longrightarrow>
   td_rangeFields e td fs ctx =
     (ctx\<lparr>auxiliaries := auxiliaries ctx @
        map2 (\<lambda>f other. \<lparr>Ins = other, Type = name td, Name = FieldInfo.Name f,
                           IsOutputs = True\<rparr>) pre others\<rparr>,
      Some (WithMessage err
        (''traitDef '' @ name td @ '' new Assists('' @ FieldInfo.Name f @ '')'')))"
proof (induction fs arbitrary: ctx pre others)
  case Nil
  then show ?case by simp
next
  case (Cons x fs)
  show ?case
  proof (cases "IsDefinition x \<or> IsHidden x \<or> IsOptional x")
    case True
    with Cons show ?thesis by auto
  next
    case False
    show ?thesis
    proof (cases pre)
      case Nil
      with False Cons.prems show ?thesis by simp
    next
      case pre: (Cons p ps)
      with False Cons.prems(1) have px: "p = x"
        and fs: "filter (\<lambda>f. \<not> (IsDefinition f \<or> IsHidden f \<or> IsOptional f)) fs = ps @ f # post"
        by simp_all
      from pre px Cons.prems(2) obtain other rest where others: "others = other # rest"
        and x: "NewOther e (Value x) = Inr other"
        and rest: "map (\<lambda>f. NewOther e (Value f)) ps = map Inr rest"
        by (cases others) auto
      have "pre = x # ps" using pre px by simp
      with False x others Cons.IH [OF fs rest Cons.prems(3)] show ?thesis
        by (simp add: PutAuxiliaries_def)
    qed
  qed
qed

lemma td_patch_auxiliaries: "auxiliaries (fst (td_patch e td inst ctx)) = auxiliaries ctx"
  by (simp add: td_patch_def Output_def split: sum.splits option.splits prod.splits)

lemma td_patch_base:
  "base ctx2 = base ctx \<Longrightarrow> base (fst (td_patch e td inst ctx2)) = base (fst (td_patch e td inst ctx))"
  by (simp add: td_patch_def Output_def split: sum.splits option.splits prod.splits)

lemma td_output_base: "base (fst (td_output e td inst ctx)) = base ctx"
  by (simp add: td_output_def PutAuxiliaries_def split: sum.splits)

lemma td_rangeFields_base: "base (fst (td_rangeFields e td fs ctx)) = base ctx"
  by (induction fs arbitrary: ctx) (simp_all add: PutAuxiliaries_def split: sum.splits)

lemma td_outputs_base: "base (fst (td_outputs e td inst ctx)) = base ctx"
  by (simp add: td_outputs_def td_rangeFields_base split: sum.splits)

lemma wd_rangeFields_base: "base (fst (wd_rangeFields e wd fs ctx)) = base ctx"
  by (induction fs arbitrary: ctx) (simp_all add: PutAuxiliaries_def split: sum.splits)

lemma td_rangeFields_prefix:
  "\<exists>rest. auxiliaries (fst (td_rangeFields e td fs ctx)) = auxiliaries ctx @ rest \<and>
          (\<forall>x\<in>set rest. IsOutputs x)"
proof (induction fs arbitrary: ctx)
  case Nil
  then show ?case by simp
next
  case (Cons x fs)
  show ?case
  proof (cases "IsDefinition x \<or> IsHidden x \<or> IsOptional x")
    case True
    with Cons show ?thesis by auto
  next
    case False
    show ?thesis
    proof (cases "NewOther e (Value x)")
      case (Inl err)
      with False show ?thesis by simp
    next
      case (Inr other)
      from Cons [of "PutAuxiliaries \<lparr>Ins = other, Type = name td,
                  Name = FieldInfo.Name x, IsOutputs = True\<rparr> ctx"]
      obtain rest where "auxiliaries (fst (td_rangeFields e td fs (PutAuxiliaries \<lparr>Ins = other, Type = name td,
                  Name = FieldInfo.Name x, IsOutputs = True\<rparr> ctx))) =
          auxiliaries ctx @ \<lparr>Ins = other, Type = name td,
                  Name = FieldInfo.Name x, IsOutputs = True\<rparr> # rest" "\<forall>x\<in>set rest. IsOutputs x"
        by (auto simp: PutAuxiliaries_def)
      with False Inr show ?thesis by simp
    qed
  qed
qed

lemma td_patch_auxiliaries_eq:
  "td_patch e td inst ctx = (ctx', r) \<Longrightarrow> auxiliaries ctx' = auxiliaries ctx"
  using td_patch_auxiliaries [of e td inst ctx] by simp

text \<open>
  Claim C5. When \<open>outputs\<close> evaluates to a struct, \<open>Complete\<close> of either renderer
  registers, after the auxiliaries already there (and, for a trait, after the one of
  \<open>output\<close>), exactly one auxiliary with \<open>IsOutputs\<close> and the field's name for each
  field that is not a definition, hidden or optional, in declaration order, and none for
  the other fields. When the wrapper fails on one of the remaining fields, the call
  stops there: it returns the error whose message carries the name of that field, and
  the context it leaves holds the auxiliaries of the remaining fields before the failing
  one and of no later field; for a trait the Base is as before the call, the patch step
  is not reached.
\<close>

theorem Complete_outputs_fields:
  "(addFiles e wd ctx tpl ''-'' = Inr bi \<and> Build e bi = [inst] \<and> Err inst = None \<and>
    NewBase e (Lookup inst OutputFieldName) = Inr b \<and>
    Lookup inst OutputsFieldName = VStruct fs \<and>
    map (\<lambda>f. NewOther e (Value f))
      (filter (\<lambda>f. \<not> (IsDefinition f \<or> IsHidden f \<or> IsOptional f)) fs) = map Inr others
    \<longrightarrow> wd_Complete e wd ctx tpl =
          (ctx\<lparr>base := Some b,
               auxiliaries := auxiliaries ctx @
                 map2 (\<lambda>f other. \<lparr>Ins = other, Type = AuxiliaryWorkload,
                                    Name = FieldInfo.Name f, IsOutputs = True\<rparr>)
                   (filter (\<lambda>f. \<not> (IsDefinition f \<or> IsHidden f \<or> IsOptional f)) fs) others\<rparr>,
           None)) \<and>
   (addFiles e wd ctx tpl ''-'' = Inr bi \<and> Build e bi = [inst] \<and> Err inst = None \<and>
    NewBase e (Lookup inst OutputFieldName) = Inr b \<and>
    Lookup inst OutputsFieldName = VStruct fs \<and>
    filter (\<lambda>f. \<not> (IsDefinition f \<or> IsHidden f \<or> IsOptional f)) fs = pre @ f # post \<and>
    map (\<lambda>f. NewOther e (Value f)) pre = map Inr others \<and>
    NewOther e (Value f) = Inl err
    \<longrightarrow> wd_Complete e wd ctx tpl =
          (ctx\<lparr>base := Some b,
               auxiliaries := auxiliaries ctx @
                 map2 (\<lambda>f other. \<lparr>Ins = other, Type = AuxiliaryWorkload,
                                    Name = FieldInfo.Name f, IsOutputs = True\<rparr>) pre others\<rparr>,
           Some (WithMessage err
             (''parse WorkloadDefinition '' @ name wd @ '' outputs('' @ FieldInfo.Name f @
              '')'')))) \<and>
   (addFiles e td ctx tpl ''f'' = Inr bi \<and> Build e bi = [inst0] \<and> Err inst0 = None \<and>
    (if Exists (Lookup inst0 ''processing'') then Process e inst0 else Inr inst0) = Inr inst \<and>
    td_output e td inst ctx = (ctx1, None) \<and>
    Lookup inst OutputsFieldName = VStruct fs \<and>
    map (\<lambda>f. NewOther e (Value f))
      (filter (\<lambda>f. \<not> (IsDefinition f \<or> IsHidden f \<or> IsOptional f)) fs) = map Inr others
    \<longrightarrow> auxiliaries (fst (td_Complete e td ctx tpl)) =
          auxiliaries ctx1 @
            map2 (\<lambda>f other. \<lparr>Ins = other, Type = name td,
                               Name = FieldInfo.Name f, IsOutputs = True\<rparr>)
              (filter (\<lambda>f. \<not> (IsDefinition f \<or> IsHidden f \<or> IsOptional f)) fs) others) \<and>
   (addFiles e td ctx tpl ''f'' = Inr bi \<and> Build e bi = [inst0] \<and> Err inst0 = None \<and>
    (if Exists (Lookup inst0 ''processing'') then Process e inst0 else Inr inst0) = Inr inst \<and>
    td_output e td inst ctx = (ctx1, None) \<and>
    Lookup inst OutputsFieldName = VStruct fs \<and>
    filter (\<lambda>f. \<not> (IsDefinition f \<or> IsHidden f \<or> IsOptional f)) fs = pre @ f # post \<and>
    map (\<lambda>f. NewOther e (Value f)) pre = map Inr others \<and>
    NewOther e (Value f) = Inl err
    \<longrightarrow> td_Complete e td ctx tpl =
          (ctx1\<lparr>auxiliaries := auxiliaries ctx1 @
                 map2 (\<lambda>f other. \<lparr>Ins = other, Type = name td,
                                    Name = FieldInfo.Name f, IsOutputs = True\<rparr>) pre others\<rparr>,
           Some (WithMessage err
             (''traitDef '' @ name td @ '' new Assists('' @ FieldInfo.Name f @ '')''))))"
proof (intro conjI impI; elim conjE)
  assume "addFiles e wd ctx tpl ''-'' = Inr bi" "Build e bi = [inst]" "Err inst = None"
    "NewBase e (Lookup inst OutputFieldName) = Inr b"
    "Lookup inst OutputsFieldName = VStruct fs"
    and w: "map (\<lambda>f. NewOther e (Value f))
      (filter (\<lambda>f. \<not> (IsDefinition f \<or> IsHidden f \<or> IsOptional f)) fs) = map Inr others"
  then show "wd_Complete e wd ctx tpl =
          (ctx\<lparr>base := Some b,
               auxiliaries := auxiliaries ctx @
                 map2 (\<lambda>f other. \<lparr>Ins = other, Type = AuxiliaryWorkload,
                                    Name = FieldInfo.Name f, IsOutputs = True\<rparr>)
                   (filter (\<lambda>f. \<not> (IsDefinition f \<or> IsHidden f \<or> IsOptional f)) fs) others\<rparr>,
           None)"
    by (simp add: wd_Complete_def wd_rangeFields_all [OF w] SetBase_def)
next
  assume "addFiles e wd ctx tpl ''-'' = Inr bi" "Build e bi = [inst]" "Err inst = None"
    "NewBase e (Lookup inst OutputFieldName) = Inr b"
    "Lookup inst OutputsFieldName = VStruct fs"
    and w: "filter (\<lambda>f. \<not> (IsDefinition f \<or> IsHidden f \<or> IsOptional f)) fs = pre @ f # post"
      "map (\<lambda>f. NewOther e (Value f)) pre = map Inr others"
      "NewOther e (Value f) = Inl err"
  then show "wd_Complete e wd ctx tpl =
          (ctx\<lparr>base := Some b,
               auxiliaries := auxiliaries ctx @
                 map2 (\<lambda>f other. \<lparr>Ins = other, Type = AuxiliaryWorkload,
                                    Name = FieldInfo.Name f, IsOutputs = True\<rparr>) pre others\<rparr>,
           Some (WithMessage err
             (''parse WorkloadDefinition '' @ name wd @ '' outputs('' @ FieldInfo.Name f @
              '')'')))"
    by (simp add: wd_Complete_def wd_rangeFields_fail [OF w] SetBase_def)
next
  assume "addFiles e td ctx tpl ''f'' = Inr bi" "Build e bi = [inst0]" "Err inst0 = None"
    "(if Exists (Lookup inst0 ''processing'') then Process e inst0 else Inr inst0) = Inr inst"
    "td_output e td inst ctx = (ctx1, None)"
    "Lookup inst OutputsFieldName = VStruct fs"
    and w: "map (\<lambda>f. NewOther e (Value f))
      (filter (\<lambda>f. \<not> (IsDefinition f \<or> IsHidden f \<or> IsOptional f)) fs) = map Inr others"
  then show "auxiliaries (fst (td_Complete e td ctx tpl)) =
          auxiliaries ctx1 @
            map2 (\<lambda>f other. \<lparr>Ins = other, Type = name td,
                               Name = FieldInfo.Name f, IsOutputs = True\<rparr>)
              (filter (\<lambda>f. \<not> (IsDefinition f \<or> IsHidden f \<or> IsOptional f)) fs) others"
    by (auto simp: td_Complete_def td_outputs_def td_rangeFields_all [OF w]
        split: prod.splits option.splits dest!: td_patch_auxiliaries_eq)
next
  assume "addFiles e td ctx tpl ''f'' = Inr bi" "Build e bi = [inst0]" "Err inst0 = None"
    "(if Exists (Lookup inst0 ''processing'') then Process e inst0 else Inr inst0) = Inr inst"
    "td_output e td inst ctx = (ctx1, None)"
    "Lookup inst OutputsFieldName = VStruct fs"
    and w: "filter (\<lambda>f. \<not> (IsDefinition f \<or> IsHidden f \<or> IsOptional f)) fs = pre @ f # post"
      "map (\<lambda>f. NewOther e (Value f)) pre = map Inr others"
      "NewOther e (Value f) = Inl err"
  then show "td_Complete e td ctx tpl =
          (ctx1\<lparr>auxiliaries := auxiliaries ctx1 @
                 map2 (\<lambda>f other. \<lparr>Ins = other, Type = name td,
                                    Name = FieldInfo.Name f, IsOutputs = True\<rparr>) pre others\<rparr>,
           Some (WithMessage err
             (''traitDef '' @ name td @ '' new Assists('' @ FieldInfo.Name f @ '')'')))"
    by (simp add: td_Complete_def td_outputs_def td_rangeFields_fail [OF w])
qed

text \<open>
  Two of five fields are registered; a number in the last one fails the call, after the
  first field is registered and, for the trait, before its patch reaches the Base.
\<close>

theorem Complete_outputs_fields_witness:
  "wd_Complete (engine0 (renderedInstance (VString ''ing''))) (def0 ''webservice'') (context1 [])
      ''tpl'' =
     (context1 []\<lparr>base := Some (Instance (VString ''frontend'')),
        auxiliaries :=
          [\<lparr>Ins = Instance (VString ''svc''), Type = ''AuxiliaryWorkload'', Name = ''service'',
             IsOutputs = True\<rparr>,
           \<lparr>Ins = Instance (VString ''ing''), Type = ''AuxiliaryWorkload'', Name = ''ingress'',
             IsOutputs = True\<rparr>]\<rparr>, None) \<and>
   wd_Complete (engine0 (patchedInstance (VOther ''number''))) (def0 ''webservice'')
      (context1 []) ''tpl'' =
     (context1 []\<lparr>base := Some (Instance (VString ''frontend'')),
        auxiliaries :=
          [\<lparr>Ins = Instance (VString ''svc''), Type = ''AuxiliaryWorkload'', Name = ''service'',
             IsOutputs = True\<rparr>]\<rparr>,
      Some (WithMessage (External ''number'')
        ''parse WorkloadDefinition webservice outputs(ingress)'')) \<and>
   auxiliaries (fst (td_Complete (engine0 (renderedInstance (VString ''ing''))) (def0 ''expose'')
      (context1 []) ''tpl'')) =
     [\<lparr>Ins = Instance (VString ''frontend''), Type = ''expose'', Name = [], IsOutputs = False\<rparr>,
      \<lparr>Ins = Instance (VString ''svc''), Type = ''expose'', Name = ''service'', IsOutputs = True\<rparr>,
      \<lparr>Ins = Instance (VString ''ing''), Type = ''expose'', Name = ''ingress'', IsOutputs = True\<rparr>] \<and>
   td_Complete (engine0 (patchedInstance (VOther ''number''))) (def0 ''expose'')
      (context1 []) ''tpl'' =
     (context1 []\<lparr>auxiliaries :=
          [\<lparr>Ins = Instance (VString ''frontend''), Type = ''expose'', Name = [],
             IsOutputs = False\<rparr>,
           \<lparr>Ins = Instance (VString ''svc''), Type = ''expose'', Name = ''service'',
             IsOutputs = True\<rparr>]\<rparr>,
      Some (WithMessage (External ''number'') ''traitDef expose new Assists(ingress)''))"
proof -
  let ?i = "renderedInstance (VString ''ing'')"
  let ?j = "patchedInstance (VOther ''number'')"
  let ?out = "\<lparr>Ins = Instance (VString ''frontend''), Type = ''expose'', Name = [],
                IsOutputs = False\<rparr>"
  have h1: "addFiles (engine0 ?i) (def0 ''webservice'') (context1 []) ''tpl'' ''-'' =
        Inr [(''-'', ''tpl''), (''-'', [])] \<and>
      Build (engine0 ?i) [(''-'', ''tpl''), (''-'', [])] = [?i] \<and> Err ?i = None \<and>
      NewBase (engine0 ?i) (Lookup ?i OutputFieldName) = Inr (Instance (VString ''frontend'')) \<and>
      Lookup ?i OutputsFieldName = VStruct (outputsFields (VString ''ing'')) \<and>
      map (\<lambda>f. NewOther (engine0 ?i) (Value f))
        (filter (\<lambda>f. \<not> (IsDefinition f \<or> IsHidden f \<or> IsOptional f))
           (outputsFields (VString ''ing''))) =
        map Inr [Instance (VString ''svc''), Instance (VString ''ing'')]"
    by (simp add: eval_defs fixture_defs const_defs)
  have h2: "addFiles (engine0 ?j) (def0 ''webservice'') (context1 []) ''tpl'' ''-'' =
        Inr [(''-'', ''tpl''), (''-'', [])] \<and>
      Build (engine0 ?j) [(''-'', ''tpl''), (''-'', [])] = [?j] \<and> Err ?j = None \<and>
      NewBase (engine0 ?j) (Lookup ?j OutputFieldName) = Inr (Instance (VString ''frontend'')) \<and>
      Lookup ?j OutputsFieldName = VStruct (outputsFields (VOther ''number'')) \<and>
      filter (\<lambda>f. \<not> (IsDefinition f \<or> IsHidden f \<or> IsOptional f))
           (outputsFields (VOther ''number'')) =
        [FieldInfo ''service'' (VString ''svc'') False False False] @
          FieldInfo ''ingress'' (VOther ''number'') False False False # [] \<and>
      map (\<lambda>f. NewOther (engine0 ?j) (Value f))
        [FieldInfo ''service'' (VString ''svc'') False False False] =
        map Inr [Instance (VString ''svc'')] \<and>
      NewOther (engine0 ?j) (Value (FieldInfo ''ingress'' (VOther ''number'') False False False)) =
        Inl (External ''number'')"
    by (simp add: eval_defs fixture_defs const_defs)
  have h3: "addFiles (engine0 ?i) (def0 ''expose'') (context1 []) ''tpl'' ''f'' =
        Inr [(''-'', ''tpl''), (''f'', [])] \<and>
      Build (engine0 ?i) [(''-'', ''tpl''), (''f'', [])] = [?i] \<and> Err ?i = None \<and>
      (if Exists (Lookup ?i ''processing'') then Process (engine0 ?i) ?i else Inr ?i) = Inr ?i \<and>
      td_output (engine0 ?i) (def0 ''expose'') ?i (context1 []) =
        (PutAuxiliaries ?out (context1 []), None) \<and>
      Lookup ?i OutputsFieldName = VStruct (outputsFields (VString ''ing'')) \<and>
      map (\<lambda>f. NewOther (engine0 ?i) (Value f))
        (filter (\<lambda>f. \<not> (IsDefinition f \<or> IsHidden f \<or> IsOptional f))
           (outputsFields (VString ''ing''))) =
        map Inr [Instance (VString ''svc''), Instance (VString ''ing'')]"
    by (simp add: eval_defs fixture_defs const_defs)
  have h4: "addFiles (engine0 ?j) (def0 ''expose'') (context1 []) ''tpl'' ''f'' =
        Inr [(''-'', ''tpl''), (''f'', [])] \<and>
      Build (engine0 ?j) [(''-'', ''tpl''), (''f'', [])] = [?j] \<and> Err ?j = None \<and>
      (if Exists (Lookup ?j ''processing'') then Process (engine0 ?j) ?j else Inr ?j) = Inr ?j \<and>
      td_output (engine0 ?j) (def0 ''expose'') ?j (context1 []) =
        (PutAuxiliaries ?out (context1 []), None) \<and>
      Lookup ?j OutputsFieldName = VStruct (outputsFields (VOther ''number'')) \<and>
      filter (\<lambda>f. \<not> (IsDefinition f \<or> IsHidden f \<or> IsOptional f))
           (outputsFields (VOther ''number'')) =
        [FieldInfo ''service'' (VString ''svc'') False False False] @
          FieldInfo ''ingress'' (VOther ''number'') False False False # [] \<and>
      map (\<lambda>f. NewOther (engine0 ?j) (Value f))
        [FieldInfo ''service'' (VString ''svc'') False False False] =
        map Inr [Instance (VString ''svc'')] \<and>
      NewOther (engine0 ?j) (Value (FieldInfo ''ingress'' (VOther ''number'') False False False)) =
        Inl (External ''number'')"
    by (simp add: eval_defs fixture_defs const_defs)
  note c1 = Complete_outputs_fields [THEN conjunct1, rule_format, OF h1]
  note c2 = Complete_outputs_fields [THEN conjunct2, THEN conjunct1, rule_format, OF h2]
  note c3 = Complete_outputs_fields [THEN conjunct2, THEN conjunct2, THEN conjunct1,
      rule_format, OF h3]
  note c4 = Complete_outputs_fields [THEN conjunct2, THEN conjunct2, THEN conjunct2,
      rule_format, OF h4]
  have r1: "wd_Complete (engine0 ?i) (def0 ''webservice'') (context1 []) ''tpl'' =
     (context1 []\<lparr>base := Some (Instance (VString ''frontend'')),
        auxiliaries :=
          [\<lparr>Ins = Instance (VString ''svc''), Type = ''AuxiliaryWorkload'', Name = ''service'',
             IsOutputs = True\<rparr>,
           \<lparr>Ins = Instance (VString ''ing''), Type = ''AuxiliaryWorkload'', Name = ''ingress'',
             IsOutputs = True\<rparr>]\<rparr>, None)"
    using c1 by (simp add: outputsFields_def context1_def AuxiliaryWorkload_def)
  have r2: "wd_Complete (engine0 ?j) (def0 ''webservice'') (context1 []) ''tpl'' =
     (context1 []\<lparr>base := Some (Instance (VString ''frontend'')),
        auxiliaries :=
          [\<lparr>Ins = Instance (VString ''svc''), Type = ''AuxiliaryWorkload'', Name = ''service'',
             IsOutputs = True\<rparr>]\<rparr>,
      Some (WithMessage (External ''number'')
        ''parse WorkloadDefinition webservice outputs(ingress)''))"
    using c2 by (simp add: def0_def context1_def AuxiliaryWorkload_def)
  have r3: "auxiliaries (fst (td_Complete (engine0 ?i) (def0 ''expose'') (context1 []) ''tpl'')) =
     [?out,
      \<lparr>Ins = Instance (VString ''svc''), Type = ''expose'', Name = ''service'', IsOutputs = True\<rparr>,
      \<lparr>Ins = Instance (VString ''ing''), Type = ''expose'', Name = ''ingress'', IsOutputs = True\<rparr>]"
    using c3 by (simp add: outputsFields_def context1_def def0_def PutAuxiliaries_def)
  have r4: "td_Complete (engine0 ?j) (def0 ''expose'') (context1 []) ''tpl'' =
     (context1 []\<lparr>auxiliaries :=
          [?out,
           \<lparr>Ins = Instance (VString ''svc''), Type = ''expose'', Name = ''service'',
             IsOutputs = True\<rparr>]\<rparr>,
      Some (WithMessage (External ''number'') ''traitDef expose new Assists(ingress)''))"
    using c4 by (simp add: def0_def context1_def PutAuxiliaries_def)
  show ?thesis
    by (intro conjI) (rule r1 r2 r3 r4)+
qed

lemma td_outputs_prefix:
  "\<exists>rest. auxiliaries (fst (td_outputs e td inst ctx)) = auxiliaries ctx @ rest \<and>
          (\<forall>x\<in>set rest. IsOutputs x)"
  using td_rangeFields_prefix [of e td _ ctx]
  by (simp add: td_outputs_def split: sum.splits)

lemma td_patch_base_eq:
  "td_patch e td inst ctx2 = (ctx3, r) \<Longrightarrow> base ctx2 = base ctx \<Longrightarrow>
     base ctx3 = base (fst (td_patch e td inst ctx))"
  using td_patch_base [of ctx2 ctx e td inst] by simp

lemma wd_rangeFields_base_eq:
  "wd_rangeFields e wd fs ctx = (ctx', r) \<Longrightarrow> base ctx' = base ctx"
  using wd_rangeFields_base [of e wd fs ctx] by simp

text \<open>
  Claim C6. A successful \<open>Complete\<close> of the workload renderer leaves as Base the
  wrapped field \<open>output\<close>, whatever the Base was before. A successful \<open>Complete\<close> of
  the trait renderer whose template has a field \<open>output\<close> registers it as the first
  new auxiliary, with the trait's name as type, an empty name and \<open>IsOutputs\<close> false
  (every later new auxiliary has \<open>IsOutputs\<close>); that step leaves the Base as it was,
  and the Base after the call is what the patch step alone makes of the Base before
  the call.
\<close>

theorem Complete_output_field:
  "(addFiles e wd ctx tpl ''-'' = Inr bi \<and> Build e bi = [inst] \<and>
    snd (wd_Complete e wd ctx tpl) = None
    \<longrightarrow> (\<exists>b. NewBase e (Lookup inst OutputFieldName) = Inr b \<and>
             base (fst (wd_Complete e wd ctx tpl)) = Some b)) \<and>
   (addFiles e td ctx tpl ''f'' = Inr bi \<and> Build e bi = [inst0] \<and>
    (if Exists (Lookup inst0 ''processing'') then Process e inst0 else Inr inst0) = Inr inst \<and>
    Exists (Lookup inst OutputFieldName) \<and>
    td_Complete e td ctx tpl = (ctx', None)
    \<longrightarrow> (\<exists>other rest.
            NewOther e (Lookup inst OutputFieldName) = Inr other \<and>
            auxiliaries ctx' =
              auxiliaries ctx @
                \<lparr>Ins = other, Type = name td, Name = [], IsOutputs = False\<rparr> # rest \<and>
            (\<forall>x\<in>set rest. IsOutputs x) \<and>
            base (fst (td_output e td inst ctx)) = base ctx \<and>
            base ctx' = base (fst (td_patch e td inst ctx))))"
proof (intro conjI impI; elim conjE)
  assume a: "addFiles e wd ctx tpl ''-'' = Inr bi" "Build e bi = [inst]"
    and ok: "snd (wd_Complete e wd ctx tpl) = None"
  from a ok obtain b where b: "NewBase e (Lookup inst OutputFieldName) = Inr b"
    by (cases "NewBase e (Lookup inst OutputFieldName)")
       (auto simp: wd_Complete_def split: option.splits)
  from a b ok have "base (fst (wd_Complete e wd ctx tpl)) = Some b"
    by (auto simp: wd_Complete_def SetBase_def split: option.splits sum.splits prod.splits
        dest!: wd_rangeFields_base_eq)
  with b show "\<exists>b. NewBase e (Lookup inst OutputFieldName) = Inr b \<and>
             base (fst (wd_Complete e wd ctx tpl)) = Some b"
    by blast
next
  assume a: "addFiles e td ctx tpl ''f'' = Inr bi" "Build e bi = [inst0]"
    and p: "(if Exists (Lookup inst0 ''processing'') then Process e inst0 else Inr inst0) = Inr inst"
    and ex: "Exists (Lookup inst OutputFieldName)"
    and ok: "td_Complete e td ctx tpl = (ctx', None)"
  from a ok have r: "td_rangeInsts e td [inst0] ctx = (ctx', None)"
    by (simp add: td_Complete_def)
  obtain ctx1 r1 where s1: "td_output e td inst ctx = (ctx1, r1)"
    by (cases "td_output e td inst ctx")
  obtain ctx2 r2 where s2: "td_outputs e td inst ctx1 = (ctx2, r2)"
    by (cases "td_outputs e td inst ctx1")
  obtain ctx3 r3 where s3: "td_patch e td inst ctx2 = (ctx3, r3)"
    by (cases "td_patch e td inst ctx2")
  from r p s1 s2 s3 have rs: "r1 = None" "r2 = None" "r3 = None" "ctx3 = ctx'"
    by (auto split: option.splits if_splits)
  from s1 rs ex obtain other where other: "NewOther e (Lookup inst OutputFieldName) = Inr other"
    and c1: "ctx1 = PutAuxiliaries \<lparr>Ins = other, Type = name td, Name = [], IsOutputs = False\<rparr> ctx"
    by (cases "NewOther e (Lookup inst OutputFieldName)") (auto simp: td_output_def)
  from td_outputs_prefix [of e td inst ctx1] s2 obtain rest where
    rest: "auxiliaries ctx2 = auxiliaries ctx1 @ rest" "\<forall>x\<in>set rest. IsOutputs x"
    by auto
  have b1: "base ctx1 = base ctx" using td_output_base [of e td inst ctx] s1 by simp
  have b2: "base ctx2 = base ctx" using td_outputs_base [of e td inst ctx1] s2 b1 by simp
  have b3: "base ctx' = base (fst (td_patch e td inst ctx))"
    using td_patch_base_eq [OF s3 b2] rs by simp
  have "auxiliaries ctx' = auxiliaries ctx2"
    using td_patch_auxiliaries_eq [OF s3] rs by simp
  with rest c1 have "auxiliaries ctx' =
      auxiliaries ctx @ \<lparr>Ins = other, Type = name td, Name = [], IsOutputs = False\<rparr> # rest"
    by (simp add: PutAuxiliaries_def)
  with other rest(2) b3 td_output_base [of e td inst ctx]
  show "\<exists>other rest.
            NewOther e (Lookup inst OutputFieldName) = Inr other \<and>
            auxiliaries ctx' =
              auxiliaries ctx @
                \<lparr>Ins = other, Type = name td, Name = [], IsOutputs = False\<rparr> # rest \<and>
            (\<forall>x\<in>set rest. IsOutputs x) \<and>
            base (fst (td_output e td inst ctx)) = base ctx \<and>
            base ctx' = base (fst (td_patch e td inst ctx))"
    by blast
qed

text \<open>The Base \<open>web\<close> becomes \<open>frontend\<close> for the workload and stays for the trait.\<close>

theorem Complete_output_field_witness:
  "(snd (wd_Complete (engine0 (renderedInstance (VString ''ing''))) (def0 ''webservice'')
       (context1 []) ''tpl'') = None \<and>
    base (context1 []) = Some (Instance (VString ''web'')) \<and>
    base (fst (wd_Complete (engine0 (renderedInstance (VString ''ing''))) (def0 ''webservice'')
       (context1 []) ''tpl'')) = Some (Instance (VString ''frontend''))) \<and>
   (snd (td_Complete (engine0 (renderedInstance (VString ''ing''))) (def0 ''expose'')
       (context1 []) ''tpl'') = None \<and>
    hd (auxiliaries (fst (td_Complete (engine0 (renderedInstance (VString ''ing'')))
       (def0 ''expose'') (context1 []) ''tpl''))) =
      \<lparr>Ins = Instance (VString ''frontend''), Type = ''expose'', Name = [], IsOutputs = False\<rparr> \<and>
    base (fst (td_Complete (engine0 (renderedInstance (VString ''ing''))) (def0 ''expose'')
       (context1 []) ''tpl'')) = Some (Instance (VString ''web'')))"
proof -
  let ?i = "renderedInstance (VString ''ing'')"
  let ?e = "engine0 ?i"
  let ?w = "wd_Complete ?e (def0 ''webservice'') (context1 []) ''tpl''"
  let ?t = "td_Complete ?e (def0 ''expose'') (context1 []) ''tpl''"
  have ok1: "snd ?w = None"
    by (simp add: eval_defs fixture_defs const_defs)
  have h1: "addFiles ?e (def0 ''webservice'') (context1 []) ''tpl'' ''-'' =
        Inr [(''-'', ''tpl''), (''-'', [])] \<and>
      Build ?e [(''-'', ''tpl''), (''-'', [])] = [?i] \<and> snd ?w = None"
    using ok1 by (simp add: eval_defs fixture_defs const_defs)
  have ok2: "snd ?t = None"
    by (simp add: eval_defs fixture_defs const_defs)
  have h2: "addFiles ?e (def0 ''expose'') (context1 []) ''tpl'' ''f'' =
        Inr [(''-'', ''tpl''), (''f'', [])] \<and>
      Build ?e [(''-'', ''tpl''), (''f'', [])] = [?i] \<and>
      (if Exists (Lookup ?i ''processing'') then Process ?e ?i else Inr ?i) = Inr ?i \<and>
      Exists (Lookup ?i OutputFieldName) \<and> ?t = (fst ?t, None)"
    using ok2 by (simp add: addFiles_def fixture_defs const_defs prod_eq_iff)
  note c1 = Complete_output_field [THEN conjunct1, rule_format, OF h1]
  note c2 = Complete_output_field [THEN conjunct2, rule_format, OF h2]
  have b0: "base (context1 []) = Some (Instance (VString ''web''))"
    by (simp add: context1_def)
  have nb: "NewBase ?e (Lookup ?i OutputFieldName) = Inr (Instance (VString ''frontend''))"
    by (simp add: fixture_defs const_defs)
  have no: "NewOther ?e (Lookup ?i OutputFieldName) = Inr (Instance (VString ''frontend''))"
    by (simp add: fixture_defs const_defs)
  have au: "auxiliaries (context1 []) = []"
    by (simp add: context1_def)
  have pb: "base (fst (td_patch ?e (def0 ''expose'') ?i (context1 []))) =
      Some (Instance (VString ''web''))"
    by (simp add: td_patch_def fixture_defs const_defs)
  have r1: "base (fst ?w) = Some (Instance (VString ''frontend''))"
    using c1 nb by auto
  have r2: "hd (auxiliaries (fst ?t)) =
      \<lparr>Ins = Instance (VString ''frontend''), Type = ''expose'', Name = [], IsOutputs = False\<rparr>"
    using c2 no au by (auto simp: def0_def)
  have r3: "base (fst ?t) = Some (Instance (VString ''web''))"
    using c2 pb by auto
  show ?thesis
    by (intro conjI) (rule ok1 b0 r1 ok2 r2 r3)+
qed

end
